theory Spec2Isabelle
  imports Main "HOL-Library.Sublist" "HOL-Library.AList"
begin

section \<open>Python values and strings\<close>

text \<open>
  Values of Python's \<open>Any\<close> that the pipeline passes around (request payloads, decoded
  response bodies, tokenized records) are JSON-shaped: \<open>None\<close>, booleans, integers,
  strings, lists and dictionaries with string keys. A dictionary is an association list
  in insertion order. Floating-point numbers do not occur in the modelled paths.
\<close>

datatype json =
    JNull
  | JBool bool
  | JNum int
  | JStr string
  | JArr "json list"
  | JObj "(string \<times> json) list"

type_synonym headers = "(string \<times> string) list"

text \<open>Python truthiness (\<open>bool(v)\<close>, as used by \<open>if v\<close>, \<open>a or b\<close>, \<open>a and b\<close>).\<close>

fun truthy :: "json \<Rightarrow> bool" where
  "truthy JNull = False"
| "truthy (JBool b) = b"
| "truthy (JNum n) = (n \<noteq> 0)"
| "truthy (JStr s) = (s \<noteq> [])"
| "truthy (JArr xs) = (xs \<noteq> [])"
| "truthy (JObj kvs) = (kvs \<noteq> [])"

text \<open>\<open>isinstance(v, (dict, list))\<close>.\<close>

fun is_dict_or_list :: "json \<Rightarrow> bool" where
  "is_dict_or_list (JArr xs) = True"
| "is_dict_or_list (JObj kvs) = True"
| "is_dict_or_list v = False"

text \<open>
  \<open>str.upper()\<close> and \<open>str.lower()\<close> on 8-bit characters: the ASCII letters change case,
  every other character is kept.
\<close>

definition upper_char :: "char \<Rightarrow> char" where
  "upper_char c =
     (case map_of (zip ''abcdefghijklmnopqrstuvwxyz'' ''ABCDEFGHIJKLMNOPQRSTUVWXYZ'') c of
        Some u \<Rightarrow> u | None \<Rightarrow> c)"

definition lower_char :: "char \<Rightarrow> char" where
  "lower_char c =
     (case map_of (zip ''ABCDEFGHIJKLMNOPQRSTUVWXYZ'' ''abcdefghijklmnopqrstuvwxyz'') c of
        Some l \<Rightarrow> l | None \<Rightarrow> c)"

definition upper :: "string \<Rightarrow> string" where
  "upper s = map upper_char s"

definition lower :: "string \<Rightarrow> string" where
  "lower s = map lower_char s"

text \<open>\<open>sub in s\<close> on strings: \<open>sub\<close> occurs in \<open>s\<close> as a contiguous block.\<close>

fun contains :: "string \<Rightarrow> string \<Rightarrow> bool" where
  "contains sub [] = (sub = [])"
| "contains sub (c # cs) = (prefix sub (c # cs) \<or> contains sub cs)"

text \<open>\<open>s.rstrip('/')\<close>: every trailing slash is removed.\<close>

definition rstrip_slash :: "string \<Rightarrow> string" where
  "rstrip_slash s = rev (dropWhile (\<lambda>c. c = CHR ''/'') (rev s))"

text \<open>\<open>sep.join(parts)\<close>.\<close>

fun join :: "string \<Rightarrow> string list \<Rightarrow> string" where
  "join sep [] = []"
| "join sep [p] = p"
| "join sep (p # q # ps) = p @ sep @ join sep (q # ps)"

text \<open>\<open>str(n)\<close> for an integer: decimal digits, with a minus sign below zero.\<close>

fun digits :: "nat \<Rightarrow> string" where
  "digits n =
     (if n < 10 then [''0123456789'' ! n]
      else digits (n div 10) @ [''0123456789'' ! (n mod 10)])"

declare digits.simps [simp del]

definition str_int :: "int \<Rightarrow> string" where
  "str_int i = (if i < 0 then ''-'' @ digits (nat (- i)) else digits (nat i))"

text \<open>
  \<open>repr(s)\<close> for a string of 8-bit characters: single quotes unless the string has a
  single quote and no double quote; the quote character and the backslash are escaped,
  tab, newline and carriage return are written \<open>\t\<close>, \<open>\n\<close>, \<open>\r\<close>, and every other
  non-printable character as \<open>\xhh\<close>.
\<close>

definition hex2 :: "nat \<Rightarrow> string" where
  "hex2 n = [''0123456789abcdef'' ! (n div 16), ''0123456789abcdef'' ! (n mod 16)]"

definition repr_char :: "char \<Rightarrow> char \<Rightarrow> string" where
  "repr_char q c =
     (let n = (of_char c :: nat) in
      if c = q \<or> c = CHR 0x5C then [CHR 0x5C, c]
      else if c = CHR 0x09 then [CHR 0x5C, CHR ''t'']
      else if c = CHR 0x0A then [CHR 0x5C, CHR ''n'']
      else if c = CHR 0x0D then [CHR 0x5C, CHR ''r'']
      else if n < 32 \<or> n = 127 \<or> (128 \<le> n \<and> n \<le> 160) \<or> n = 173
        then [CHR 0x5C, CHR ''x''] @ hex2 n
      else [c])"

definition repr_str :: "string \<Rightarrow> string" where
  "repr_str s =
     (let q = (if CHR 0x27 \<in> set s \<and> CHR 0x22 \<notin> set s then CHR 0x22 else CHR 0x27)
      in [q] @ concat (map (repr_char q) s) @ [q])"


section \<open>Native test runner (quality_agent/core/native_test_runner.py)\<close>

subsection \<open>Data\<close>

record request_record =
  http_method :: string
  url :: string
  request_headers :: headers
  request_body :: json
  status_code :: int
  response_headers :: headers
  response_body :: json

record test_failure =
  test_name :: string
  reason :: string
  failed_record :: request_record

record test_run_result =
  success :: bool
  request_history :: "request_record list"
  failure :: "test_failure option"

text \<open>
  A test case dictionary as \<open>load_test_cases\<close> builds it. The key \<open>requires_json\<close> is read
  with \<open>test.get("requires_json", False)\<close>, so it may be absent.
\<close>

record test_case =
  tc_name :: string
  tc_method :: string
  tc_endpoint :: string
  tc_payload :: json
  tc_expected_status :: "int list"
  tc_requires_json :: "bool option"

text \<open>
  A Python exception as the runner uses it: \<open>str(exc)\<close> and \<open>repr(exc)\<close>.
  \<open>ValueError(msg)\<close> prints as its message and as \<open>ValueError('msg')\<close>.
\<close>

record py_exception =
  exc_str :: string
  exc_repr :: string

definition ValueError :: "string \<Rightarrow> py_exception" where
  "ValueError msg = \<lparr>exc_str = msg, exc_repr = ''ValueError('' @ repr_str msg @ '')''\<rparr>"

text \<open>
  The request body bytes that httpx reports back on \<open>response.request.content\<close>: either
  decodable as UTF-8 (possibly empty) or not.
\<close>

datatype req_content = Decodable string | Undecodable

text \<open>
  What the runner reads from an \<open>httpx.Response\<close>: the request as httpx sent it, the
  status code, the headers, the result of \<open>response.json()\<close> (\<open>None\<close> when it raises) and
  \<open>response.text\<close>.
\<close>

record http_response =
  req_method :: string
  req_url :: string
  req_headers :: headers
  req_content :: req_content
  resp_status_code :: int
  resp_headers :: headers
  resp_json :: "json option"
  resp_text :: string

text \<open>The four calls the runner makes on the httpx client.\<close>

datatype http_call =
    Get string
  | Post string json
  | Put string json
  | Delete string

text \<open>
  The network, seen from the runner: the call issued for the test case at position \<open>i\<close>
  either raises (connection refused, timeout, DNS failure) or returns a response. Test
  cases run strictly in order, so the position determines everything sent before.
\<close>

type_synonym network = "nat \<Rightarrow> http_call \<Rightarrow> py_exception + http_response"

subsection \<open>The configured suite\<close>

definition load_test_cases :: "test_case list" where
  "load_test_cases =
     [\<lparr>tc_name = ''health_check'', tc_method = ''GET'', tc_endpoint = ''/health'',
       tc_payload = JNull, tc_expected_status = [200], tc_requires_json = Some False\<rparr>,
      \<lparr>tc_name = ''login_requirements'', tc_method = ''POST'', tc_endpoint = ''/login'',
       tc_payload = JObj [(''username'', JStr ''test_user''),
                          (''password'', JStr ''wrong_password'')],
       tc_expected_status = [200, 401], tc_requires_json = Some True\<rparr>]"

subsection \<open>record_and_return\<close>

text \<open>
  Builds the record from the response, or from the exception when there is no response,
  appends it to the history and returns both.
\<close>

definition record_and_return ::
  "request_record list \<Rightarrow> http_response option \<Rightarrow> string \<Rightarrow> string \<Rightarrow> json \<Rightarrow>
   py_exception option \<Rightarrow> request_record \<times> request_record list" where
  "record_and_return history response meth u body exception =
     (let record =
        (case response of
           Some resp \<Rightarrow>
             (let req_body =
                (case req_content resp of
                   Decodable s \<Rightarrow> (if s \<noteq> [] then JStr s else JNull)
                 | Undecodable \<Rightarrow> JStr ''<binary>'');
                  resp_body =
                (case resp_json resp of
                   Some v \<Rightarrow> v
                 | None \<Rightarrow> JStr (resp_text resp))
              in \<lparr>http_method = req_method resp, url = req_url resp,
                  request_headers = req_headers resp, request_body = req_body,
                  status_code = resp_status_code resp,
                  response_headers = resp_headers resp, response_body = resp_body\<rparr>)
         | None \<Rightarrow>
             \<lparr>http_method = meth, url = u, request_headers = [], request_body = body,
              status_code = 0, response_headers = [],
              response_body =
                (case exception of
                   Some exc \<Rightarrow> JStr (exc_str exc)
                 | None \<Rightarrow> JStr ''Unknown error'')\<rparr>)
      in (record, history @ [record]))"

subsection \<open>run_native_tests\<close>

text \<open>
  Method dispatch: which client call the \<open>if\<close>/\<open>elif\<close> chain makes, or the \<open>ValueError\<close>
  of its \<open>else\<close> branch.
\<close>

definition dispatch :: "string \<Rightarrow> string \<Rightarrow> json \<Rightarrow> py_exception + http_call" where
  "dispatch meth u payload =
     (if upper meth = ''GET'' then Inr (Get u)
      else if upper meth = ''POST'' then Inr (Post u payload)
      else if upper meth = ''PUT'' then Inr (Put u payload)
      else if upper meth = ''DELETE'' then Inr (Delete u)
      else Inl (ValueError (''Unsupported HTTP method: '' @ meth)))"

text \<open>
  The \<open>except Exception\<close> handler of the loop body: record the exception and return the
  failed run.
\<close>

definition on_exception ::
  "request_record list \<Rightarrow> test_case \<Rightarrow> string \<Rightarrow> py_exception \<Rightarrow> test_run_result" where
  "on_exception history test u exc =
     (let (rec, history') =
            record_and_return history None (tc_method test) u (tc_payload test) (Some exc);
          why = ''Exception calling '' @ tc_endpoint test @ '': '' @ exc_repr exc
      in \<lparr>success = False, request_history = history',
          failure = Some \<lparr>test_name = tc_name test, reason = why, failed_record = rec\<rparr>\<rparr>)"

text \<open>
  The loop over the test cases. The state is the history and, for the observer, the list
  of calls put to the client, each with the position of its test case. The result is the
  returned \<open>TestRunResult\<close> and that list.
\<close>

fun run_loop ::
  "network \<Rightarrow> string \<Rightarrow> nat \<Rightarrow> test_case list \<Rightarrow> request_record list \<Rightarrow>
   (nat \<times> http_call) list \<Rightarrow> test_run_result \<times> (nat \<times> http_call) list" where
  "run_loop net api_base_url i [] history sent =
     (\<lparr>success = True, request_history = history, failure = None\<rparr>, sent)"
| "run_loop net api_base_url i (test # rest) history sent =
     (let u = rstrip_slash api_base_url @ tc_endpoint test;
          expected_status = tc_expected_status test;
          requires_json = (case tc_requires_json test of Some b \<Rightarrow> b | None \<Rightarrow> False)
      in case dispatch (tc_method test) u (tc_payload test) of
           Inl exc \<Rightarrow> (on_exception history test u exc, sent)
         | Inr call \<Rightarrow>
             (case net i call of
                Inl exc \<Rightarrow> (on_exception history test u exc, sent @ [(i, call)])
              | Inr resp \<Rightarrow>
                  (let (rec, history') =
                         record_and_return history (Some resp) (tc_method test) u
                           (tc_payload test) None
                   in if resp_status_code resp \<notin> set expected_status then
                        (\<lparr>success = False, request_history = history',
                          failure = Some
                            \<lparr>test_name = tc_name test,
                             reason = ''Expected '' @ join '' or '' (map str_int expected_status)
                                      @ '' from '' @ tc_endpoint test @ '', got ''
                                      @ str_int (resp_status_code resp),
                             failed_record = rec\<rparr>\<rparr>,
                         sent @ [(i, call)])
                      else if requires_json \<and> \<not> is_dict_or_list (response_body rec) then
                        (\<lparr>success = False, request_history = history',
                          failure = Some
                            \<lparr>test_name = tc_name test,
                             reason = ''Expected JSON response from '' @ tc_endpoint test,
                             failed_record = rec\<rparr>\<rparr>,
                         sent @ [(i, call)])
                      else run_loop net api_base_url (Suc i) rest history' (sent @ [(i, call)]))))"

definition run_tests ::
  "network \<Rightarrow> string \<Rightarrow> test_case list \<Rightarrow> test_run_result \<times> (nat \<times> http_call) list" where
  "run_tests net api_base_url test_cases = run_loop net api_base_url 0 test_cases [] []"

definition run_native_tests ::
  "network \<Rightarrow> string \<Rightarrow> test_run_result \<times> (nat \<times> http_call) list" where
  "run_native_tests net api_base_url = run_tests net api_base_url load_test_cases"

subsection \<open>When a test case passes\<close>

text \<open>
  The outcome the specification calls passing: the method is dispatched, the call returns
  a response, the status code is among the expected ones, and when JSON is required the
  decoded body is a dictionary or a list.
\<close>

definition case_ok :: "network \<Rightarrow> string \<Rightarrow> nat \<Rightarrow> test_case \<Rightarrow> bool" where
  "case_ok net api_base_url i test =
     (case dispatch (tc_method test) (rstrip_slash api_base_url @ tc_endpoint test)
             (tc_payload test) of
        Inl exc \<Rightarrow> False
      | Inr call \<Rightarrow>
          (case net i call of
             Inl exc \<Rightarrow> False
           | Inr resp \<Rightarrow>
               resp_status_code resp \<in> set (tc_expected_status test) \<and>
               (tc_requires_json test = Some True \<longrightarrow>
                  (case resp_json resp of Some v \<Rightarrow> is_dict_or_list v | None \<Rightarrow> False))))"

text \<open>The records \<open>record_and_return\<close> builds, apart from the history they are appended to.\<close>

definition response_record :: "http_response \<Rightarrow> request_record" where
  "response_record resp = fst (record_and_return [] (Some resp) [] [] JNull None)"

definition exception_record :: "test_case \<Rightarrow> string \<Rightarrow> py_exception \<Rightarrow> request_record" where
  "exception_record test u exc =
     fst (record_and_return [] None (tc_method test) u (tc_payload test) (Some exc))"

subsection \<open>Sample networks\<close>

definition sample_response :: "string \<Rightarrow> string \<Rightarrow> int \<Rightarrow> json option \<Rightarrow> string \<Rightarrow> http_response" where
  "sample_response m u st js txt =
     \<lparr>req_method = m, req_url = u, req_headers = [], req_content = Decodable [],
      resp_status_code = st, resp_headers = [], resp_json = js, resp_text = txt\<rparr>"

definition refused :: py_exception where
  "refused = \<lparr>exc_str = ''[Errno 111] Connection refused'',
              exc_repr = ''ConnectError('[Errno 111] Connection refused')''\<rparr>"

text \<open>A service that answers 200 on GET and 401 with a JSON body on POST.\<close>

definition healthy_net :: network where
  "healthy_net i call =
     (case call of
        Get u \<Rightarrow> Inr (sample_response ''GET'' u 200 None [])
      | Post u p \<Rightarrow>
          Inr (sample_response ''POST'' u 401
                 (Some (JObj [(''error'', JStr ''invalid credentials'')])) [])
      | Put u p \<Rightarrow> Inl refused
      | Delete u \<Rightarrow> Inl refused)"

text \<open>The same service with a login endpoint that answers 500.\<close>

definition broken_login_net :: network where
  "broken_login_net i call =
     (case call of
        Get u \<Rightarrow> Inr (sample_response ''GET'' u 200 None [])
      | Post u p \<Rightarrow> Inr (sample_response ''POST'' u 500 None ''Internal Server Error'')
      | Put u p \<Rightarrow> Inl refused
      | Delete u \<Rightarrow> Inl refused)"

text \<open>A service whose login endpoint cannot be reached.\<close>

definition login_down_net :: network where
  "login_down_net i call =
     (case call of
        Get u \<Rightarrow> Inr (sample_response ''GET'' u 200 None [])
      | Post u p \<Rightarrow> Inl refused
      | Put u p \<Rightarrow> Inl refused
      | Delete u \<Rightarrow> Inl refused)"

text \<open>Suites with a method the dispatch does not know, and with a lower-case method.\<close>

definition patch_suite :: "test_case list" where
  "patch_suite =
     [\<lparr>tc_name = ''health_check'', tc_method = ''GET'', tc_endpoint = ''/health'',
       tc_payload = JNull, tc_expected_status = [200], tc_requires_json = Some False\<rparr>,
      \<lparr>tc_name = ''patch_user'', tc_method = ''PATCH'', tc_endpoint = ''/user'',
       tc_payload = JNull, tc_expected_status = [200], tc_requires_json = Some False\<rparr>,
      \<lparr>tc_name = ''health_again'', tc_method = ''GET'', tc_endpoint = ''/health'',
       tc_payload = JNull, tc_expected_status = [200], tc_requires_json = Some False\<rparr>]"

definition lowercase_suite :: "test_case list" where
  "lowercase_suite =
     [\<lparr>tc_name = ''health_check'', tc_method = ''get'', tc_endpoint = ''/health'',
       tc_payload = JNull, tc_expected_status = [200], tc_requires_json = Some False\<rparr>]"


section \<open>Failure log (quality_agent/core/logger.py)\<close>

text \<open>
  Errors other than the transport exceptions above: the Python exception classes the
  modelled code can meet, and \<open>Raised\<close> for an exception coming from a library call.
\<close>

datatype py_error =
    AttributeError
  | IndexError
  | KeyError
  | TypeError
  | OSError
  | Raised py_exception

text \<open>\<open>record_to_dict\<close>: the dictionary has the keys of the dataclass, each copied.\<close>

definition record_to_dict :: "request_record \<Rightarrow> request_record" where
  "record_to_dict r =
     \<lparr>http_method = http_method r, url = url r, request_headers = request_headers r,
      request_body = request_body r, status_code = status_code r,
      response_headers = response_headers r, response_body = response_body r\<rparr>"

record request_data =
  rd_method :: string
  rd_url :: string
  rd_headers :: headers
  rd_body :: json

record response_data =
  sd_status_code :: int
  sd_headers :: headers
  sd_body :: json

record failing_call =
  fc_request_data :: request_data
  fc_response_data :: response_data

text \<open>
  The log dictionary. Every key is optional, as the readers of the log use
  \<open>log.get(key, default)\<close>; \<open>save_raw_failure_log\<close> always sets \<open>run_id\<close>, \<open>timestamp\<close>,
  \<open>commit_hash\<close>, \<open>status\<close> and \<open>request_history\<close>.
\<close>

record failure_log =
  log_run_id :: "string option"
  log_timestamp :: "string option"
  log_commit_hash :: "string option"
  log_status :: "string option"
  log_test_name :: "string option"
  log_failure_reason :: "string option"
  log_request_history :: "request_record list option"
  log_failing_call :: "failing_call option"

definition empty_log :: failure_log where
  "empty_log =
     \<lparr>log_run_id = None, log_timestamp = None, log_commit_hash = None, log_status = None,
      log_test_name = None, log_failure_reason = None, log_request_history = None,
      log_failing_call = None\<rparr>"

text \<open>
  The operating system is outside the repository. The logger makes two calls on it:
  \<open>os.makedirs(path, exist_ok=True)\<close>, and \<open>open(path, "w")\<close> followed by \<open>json.dump\<close> of
  the dictionary into the file. Its state is a value of type \<open>'fs\<close>, and each call is a
  function of that state which raises or returns the state after it. Which paths the
  system accepts (a missing parent directory, a path that is a directory, a disk that
  refuses the write) is the system's business and is not fixed here.
\<close>

record 'fs os_ops =
  os_makedirs :: "'fs \<Rightarrow> string \<Rightarrow> py_error + 'fs"
  os_write_json :: "'fs \<Rightarrow> string \<Rightarrow> failure_log \<Rightarrow> py_error + 'fs"

text \<open>
  The dictionary \<open>save_raw_failure_log\<close> builds before it touches the file system:
  \<open>result\<close> for a passed or failed run, then \<open>payload\<close> with the metadata in front.
\<close>

definition build_payload ::
  "test_run_result \<Rightarrow> string \<Rightarrow> string \<Rightarrow> string \<Rightarrow> failure_log" where
  "build_payload test_result commit run ts =
     (let result =
        (if success test_result then
           empty_log\<lparr>log_status := Some ''passed'',
                     log_request_history :=
                       Some (map record_to_dict (request_history test_result))\<rparr>
         else
           (let fl = failure test_result;
                failed = (case fl of Some f \<Rightarrow> Some (failed_record f) | None \<Rightarrow> None);
                result0 =
                  empty_log\<lparr>log_status := Some ''failed'',
                     log_test_name :=
                       Some (case fl of Some f \<Rightarrow> test_name f | None \<Rightarrow> ''unknown''),
                     log_failure_reason :=
                       Some (case fl of Some f \<Rightarrow> reason f | None \<Rightarrow> ''unknown''),
                     log_request_history :=
                       Some (map record_to_dict (request_history test_result))\<rparr>
            in case failed of
                 Some fr \<Rightarrow>
                   result0\<lparr>log_failing_call := Some
                     \<lparr>fc_request_data =
                        \<lparr>rd_method = http_method fr, rd_url = url fr,
                         rd_headers = request_headers fr, rd_body = request_body fr\<rparr>,
                      fc_response_data =
                        \<lparr>sd_status_code = status_code fr, sd_headers = response_headers fr,
                         sd_body = response_body fr\<rparr>\<rparr>\<rparr>
               | None \<Rightarrow> result0))
      in result\<lparr>log_run_id := Some run, log_timestamp := Some ts,
                log_commit_hash := Some commit\<rparr>)"

text \<open>
  \<open>save_raw_failure_log\<close>: builds the result, creates the directory \<open>runs\<close>, writes the
  payload to \<open>runs/{run_id}_raw.json\<close> and returns the payload. Neither call on the
  system is inside a \<open>try\<close>: an error of either leaves the function. The result is that
  error, or the payload and the state of the system after the call.
\<close>

definition save_raw_failure_log ::
  "'fs os_ops \<Rightarrow> 'fs \<Rightarrow> test_run_result \<Rightarrow> string \<Rightarrow> string \<Rightarrow> string \<Rightarrow>
   py_error + failure_log \<times> 'fs" where
  "save_raw_failure_log os fs test_result commit run ts =
     (let payload = build_payload test_result commit run ts
      in case os_makedirs os fs ''runs'' of
           Inl e \<Rightarrow> Inl e
         | Inr fs1 \<Rightarrow>
             (let path = ''runs/'' @ run @ ''_raw.json''
              in case os_write_json os fs1 path payload of
                   Inl e \<Rightarrow> Inl e
                 | Inr fs2 \<Rightarrow> Inr (payload, fs2)))"

text \<open>
  Two systems to run the logger on. The first accepts every call and keeps a journal of
  the calls made on it; the second refuses every call.
\<close>

datatype os_call =
    Makedirs string
  | WriteJson string failure_log

definition journal_os :: "os_call list os_ops" where
  "journal_os =
     \<lparr>os_makedirs = (\<lambda>journal path. Inr (journal @ [Makedirs path])),
      os_write_json = (\<lambda>journal path doc. Inr (journal @ [WriteJson path doc]))\<rparr>"

definition refusing_os :: "unit os_ops" where
  "refusing_os =
     \<lparr>os_makedirs = (\<lambda>u path. Inl OSError),
      os_write_json = (\<lambda>u path doc. Inl OSError)\<rparr>"

text \<open>Sample input: the result of a run with one passing case.\<close>

definition health_record :: request_record where
  "health_record =
     \<lparr>http_method = ''GET'', url = ''http://127.0.0.1:8000/health'', request_headers = [],
      request_body = JNull, status_code = 200, response_headers = [],
      response_body = JStr []\<rparr>"

definition passed_run :: test_run_result where
  "passed_run = \<lparr>success = True, request_history = [health_record], failure = None\<rparr>"


section \<open>Rule-based diagnosis (quality_agent/llm/client.py)\<close>

record diagnosis =
  FailureCategory :: string
  RootCauseSummary :: string
  ReproductionSteps :: "string list"
  SuggestedFix :: string

text \<open>
  \<open>str(v)\<close> as an f-string prints a value: a string as it is, a number in decimal,
  \<open>None\<close>, \<open>True\<close> and \<open>False\<close> by name, a list or a dictionary with the \<open>repr\<close> of
  its members.
\<close>

fun py_repr :: "json \<Rightarrow> string" where
  "py_repr JNull = ''None''"
| "py_repr (JBool b) = (if b then ''True'' else ''False'')"
| "py_repr (JNum n) = str_int n"
| "py_repr (JStr s) = repr_str s"
| "py_repr (JArr xs) = ''['' @ join '', '' (map py_repr xs) @ '']''"
| "py_repr (JObj kvs) =
     ''{'' @ join '', '' (map (\<lambda>kv. repr_str (fst kv) @ '': '' @ py_repr (snd kv)) kvs) @ ''}''"

definition py_str :: "json \<Rightarrow> string" where
  "py_str v = (case v of JStr s \<Rightarrow> s | _ \<Rightarrow> py_repr v)"

text \<open>The three fix templates and the generic instruction, as the source spells them.\<close>

definition fix_status_code :: string where
  \<open>fix_status_code =
''Review the endpoint implementation and ensure:
1. The endpoint is registered in the API router
2. HTTP status codes match the API specification
3. Error handling returns appropriate status codes (401 for auth failures, 404 for not found)

Example fix:
```python
@app.post("/login")
def login(payload: LoginRequest, response: Response):
    if not validate_credentials(payload):
        response.status_code = status.HTTP_401_UNAUTHORIZED
        return {"error": "invalid credentials"}
    return {"token": generate_token(payload.username)}
```''\<close>

definition fix_json :: string where
  \<open>fix_json =
''Ensure all API responses use JSONResponse:
```python
from fastapi.responses import JSONResponse

@app.get("/endpoint")
def handler():
    return {"key": "value"}  # FastAPI auto-converts to JSON
```''\<close>

definition fix_environment :: string where
  \<open>fix_environment =
''Check:
1. The API service is running and accessible
2. Network connectivity between test runner and API
3. Environment variables and configuration
4. Service dependencies (database, Redis, etc.)''\<close>

definition fix_generic :: string where
  "fix_generic = ''Review the test implementation and API specification for discrepancies.''"

text \<open>One reproduction step for each recorded request.\<close>

definition reproduction_step :: "request_record \<Rightarrow> string" where
  "reproduction_step req =
     (let m = http_method req; u = url req in
      if m = ''GET'' then ''curl -X '' @ m @ '' '' @ [CHR 0x27] @ u @ [CHR 0x27]
      else
        (let body = request_body req in
         if truthy body then
           ''curl -X '' @ m @ '' '' @ [CHR 0x27] @ u @ [CHR 0x27]
             @ '' -H 'Content-Type: application/json' -d '' @ [CHR 0x27] @ py_str body
             @ [CHR 0x27]
         else ''curl -X '' @ m @ '' '' @ [CHR 0x27] @ u @ [CHR 0x27]))"

definition generate_mock_diagnosis :: "failure_log \<Rightarrow> diagnosis" where
  "generate_mock_diagnosis log =
     (let status = (case log_status log of Some s \<Rightarrow> s | None \<Rightarrow> ''unknown'');
          failure_reason =
            (case log_failure_reason log of Some r \<Rightarrow> r | None \<Rightarrow> ''Unknown failure'');
          name = (case log_test_name log of Some n \<Rightarrow> n | None \<Rightarrow> ''unknown_test'')
      in if status = ''passed'' then
           \<lparr>FailureCategory = ''Success'',
            RootCauseSummary = ''All tests passed successfully.'',
            ReproductionSteps = [],
            SuggestedFix = ''No fixes needed.''\<rparr>
         else
           (let (category, summary, fix) =
              (if contains ''status_code'' (lower failure_reason)
                  \<or> contains ''401'' failure_reason \<or> contains ''404'' failure_reason then
                 (''Product Bug'',
                  ''Test ''  @ [CHR 0x27] @ name @ [CHR 0x27]
                    @ '' failed due to unexpected HTTP status code. '' @ failure_reason
                    @ ''. This indicates the API endpoint may not be ''
                    @ ''properly handling the request or the endpoint implementation is incorrect.'',
                  fix_status_code)
               else if contains ''json'' (lower failure_reason) then
                 (''Product Bug'',
                  ''Test '' @ [CHR 0x27] @ name @ [CHR 0x27]
                    @ '' expected a JSON response but received a different format. ''
                    @ ''The API should consistently return JSON for all endpoints.'',
                  fix_json)
               else if contains ''exception'' (lower failure_reason)
                       \<or> contains ''error'' (lower failure_reason) then
                 (''Environment Issue'',
                  ''Test '' @ [CHR 0x27] @ name @ [CHR 0x27] @ '' encountered an exception: ''
                    @ failure_reason
                    @ ''. This may indicate network issues, service unavailability, or configuration problems.'',
                  fix_environment)
               else
                 (''Automation Flaw'',
                  ''Test '' @ [CHR 0x27] @ name @ [CHR 0x27] @ '' failed: '' @ failure_reason,
                  fix_generic));
                request_history =
                  (case log_request_history log of Some h \<Rightarrow> h | None \<Rightarrow> []);
                steps = map reproduction_step request_history
            in \<lparr>FailureCategory = category,
                RootCauseSummary = summary,
                ReproductionSteps =
                  (if steps \<noteq> [] then steps else [''Run the test suite against the API'']),
                SuggestedFix = fix\<rparr>))"

text \<open>
  \<open>llm_generate\<close> of the client module. The OpenAI call is outside the repository: its
  outcome is \<open>None\<close> when \<open>OPENAI_API_KEY\<close> is not set, an error when the call raises, or
  the diagnosis it returns. The payload holds the log under the key \<open>log\<close>, or not.
\<close>

definition client_llm_generate ::
  "(py_error + diagnosis) option \<Rightarrow> failure_log option \<Rightarrow> diagnosis" where
  "client_llm_generate openai payload_log =
     (case openai of
        Some (Inr d) \<Rightarrow> d
      | _ \<Rightarrow> generate_mock_diagnosis (case payload_log of Some l \<Rightarrow> l | None \<Rightarrow> empty_log))"


section \<open>Retrieval and diagnosis pipeline (quality_agent/core/rag_pipeline.py)\<close>

subsection \<open>VectorDBClient\<close>

record vector_db_client =
  vdb_url :: "string option"
  vdb_enabled :: bool
  vdb_has_client :: bool

text \<open>
  The constructor. \<open>redis_imported\<close> says that the imports of \<open>redis\<close> and \<open>redisvl\<close> at the
  top of the module succeeded (it is the module's \<open>REDISVL_AVAILABLE\<close>, and \<open>redis\<close> is
  \<open>None\<close> exactly when it is false); \<open>env_url\<close> is the environment's \<open>REDIS_URL\<close>;
  \<open>from_url_ok\<close> says whether \<open>redis.from_url\<close> returns.
\<close>

definition VectorDBClient :: "bool \<Rightarrow> string option \<Rightarrow> bool \<Rightarrow> string option \<Rightarrow> vector_db_client" where
  "VectorDBClient redis_imported env_url from_url_ok u =
     (let eff = (case u of Some s \<Rightarrow> (if s \<noteq> [] then Some s else env_url) | None \<Rightarrow> env_url);
          en = (redis_imported \<and> eff \<noteq> None)
      in if en then
           (if from_url_ok then \<lparr>vdb_url = eff, vdb_enabled = True, vdb_has_client = True\<rparr>
            else \<lparr>vdb_url = eff, vdb_enabled = False, vdb_has_client = False\<rparr>)
         else \<lparr>vdb_url = eff, vdb_enabled = False, vdb_has_client = False\<rparr>)"

definition index_name :: "string \<Rightarrow> string \<Rightarrow> string" where
  "index_name base commit = base @ '':'' @ commit"

text \<open>
  The calls made on the client, as an observer counts them: \<open>query_vector\<close> with its
  index, query text, return fields, filter expression and top-K, and the legacy \<open>search\<close>
  with its index, query text and top-K.
\<close>

datatype vdb_call =
    QueryVector string string "string list" "(string \<times> string) list option" nat
  | Search string string nat

text \<open>Both methods return the empty list on every path: the search itself is a stub.\<close>

definition query_vector ::
  "bool \<Rightarrow> vector_db_client \<Rightarrow> string \<Rightarrow> string \<Rightarrow> string list \<Rightarrow>
   (string \<times> string) list option \<Rightarrow> nat \<Rightarrow> json list" where
  "query_vector redisvl_available vdb idx query_text return_fields filter_expr top_k =
     (if \<not> redisvl_available \<or> \<not> vdb_enabled vdb \<or> \<not> vdb_has_client vdb then []
      else [])"

definition search :: "vector_db_client \<Rightarrow> string \<Rightarrow> string \<Rightarrow> nat \<Rightarrow> json list" where
  "search vdb idx query_text top_k =
     (if \<not> vdb_enabled vdb \<or> \<not> vdb_has_client vdb then [] else [])"

subsection \<open>retrieve_context\<close>

record retrieved_context =
  ctx_code :: "json list"
  ctx_docs :: "json list"

text \<open>
  \<open>json.dumps\<close> of the log is a parameter. The arguments \<open>vdb\<close> and \<open>top_k\<close> have defaults
  (\<open>None\<close> and 5): an omitted argument is \<open>None\<close> here. The result is the returned
  dictionary and the calls made on the client, in order. Neither \<open>query_vector\<close> nor
  \<open>search\<close> can raise, so the \<open>except\<close> branch is never taken.
\<close>

definition retrieve_context ::
  "bool \<Rightarrow> (failure_log \<Rightarrow> string) \<Rightarrow> failure_log \<Rightarrow> string \<Rightarrow> vector_db_client option \<Rightarrow>
   nat option \<Rightarrow> retrieved_context \<times> vdb_call list" where
  "retrieve_context redisvl_available dumps error_log commit vdb top_k_arg =
     (let top_k = (case top_k_arg of Some k \<Rightarrow> k | None \<Rightarrow> 5);
          query_text = dumps error_log
      in case vdb of
           Some v \<Rightarrow>
             (if redisvl_available \<and> vdb_enabled v then
                (let code_results =
                       query_vector redisvl_available v ''code_index'' query_text
                         [''filepath'', ''content'', ''commit_hash'']
                         (Some [(''commit_hash'', commit)]) top_k;
                     doc_results =
                       query_vector redisvl_available v ''doc_index'' query_text
                         [''title'', ''content''] None top_k
                 in (\<lparr>ctx_code = code_results, ctx_docs = doc_results\<rparr>,
                     [QueryVector ''code_index'' query_text
                        [''filepath'', ''content'', ''commit_hash'']
                        (Some [(''commit_hash'', commit)]) top_k,
                      QueryVector ''doc_index'' query_text [''title'', ''content''] None top_k]))
              else
                (let code_index = index_name ''code_index'' commit;
                     doc_index = index_name ''doc_index'' commit;
                     code_hits = search v code_index query_text top_k;
                     doc_hits = search v doc_index query_text top_k
                 in (\<lparr>ctx_code = code_hits, ctx_docs = doc_hits\<rparr>,
                     [Search code_index query_text top_k, Search doc_index query_text top_k])))
         | None \<Rightarrow> (\<lparr>ctx_code = [], ctx_docs = []\<rparr>, []))"

subsection \<open>The module's own llm_generate and run_rag_diagnosis\<close>

text \<open>
  The module imports \<open>llm_generate\<close> from the client package and then defines a function
  of the same name, which is the one \<open>run_rag_diagnosis\<close> calls. It reads the test name
  and the failure reason of the log and returns a fixed category, fixed steps and a
  fixed fix.
\<close>

definition rag_llm_generate :: "failure_log option \<Rightarrow> retrieved_context option \<Rightarrow> diagnosis" where
  \<open>rag_llm_generate prompt_log prompt_context =
     (let log = (case prompt_log of Some l \<Rightarrow> l | None \<Rightarrow> empty_log);
          failure_reason =
            (case log_failure_reason log of Some r \<Rightarrow> r | None \<Rightarrow> ''Unknown failure'');
          name = (case log_test_name log of Some n \<Rightarrow> n | None \<Rightarrow> ''unknown_test'')
      in \<lparr>FailureCategory = ''Product Bug'',
          RootCauseSummary =
            ''Test '' @ [CHR 0x27] @ name @ [CHR 0x27] @ '' failed: '' @ failure_reason @ ''. ''
            @ ''This indicates the API implementation may not be following the expected contract.'',
          ReproductionSteps =
            [''curl -X GET '<API_BASE_URL>/health'' @ [CHR 0x27],
             ''curl -X POST '<API_BASE_URL>/login' -H 'Content-Type: application/json' ''
             @ ''-d '{"username": "test_user", "password": "wrong_password"}'' @ [CHR 0x27]],
          SuggestedFix =
            ''Ensure all error branches return proper HTTP status codes (401 for auth failures) ''
            @ ''and JSON response bodies. Example:

''
            @ ''response.status_code = status.HTTP_401_UNAUTHORIZED
''
            @ ''return {'error': 'invalid credentials'}''\<rparr>)\<close>

text \<open>
  The environment of \<open>run_rag_diagnosis\<close>: whether the imports succeeded, the
  \<open>REDIS_URL\<close> variable, whether \<open>redis.from_url\<close> returns, and what the ingestion of code
  and documents does when it runs (it writes to Redis outside any \<open>try\<close>, so it may raise).
\<close>

record rag_env =
  env_redis_imported :: bool
  env_redis_url :: "string option"
  env_from_url_ok :: bool
  env_ingest_raises :: "py_error option"

definition run_rag_diagnosis ::
  "rag_env \<Rightarrow> (failure_log \<Rightarrow> string) \<Rightarrow> failure_log \<Rightarrow> string \<Rightarrow>
   py_error + diagnosis \<times> vdb_call list" where
  "run_rag_diagnosis env dumps raw_log commit =
     (if log_status raw_log = Some ''passed'' then
        Inr (\<lparr>FailureCategory = ''Success'',
              RootCauseSummary = ''All tests passed successfully.'',
              ReproductionSteps = [],
              SuggestedFix = ''No fixes needed.''\<rparr>, [])
      else
        (let vdb = VectorDBClient (env_redis_imported env) (env_redis_url env)
                     (env_from_url_ok env) None
         in if vdb_enabled vdb then
              (case env_ingest_raises env of
                 Some e \<Rightarrow> Inl e
               | None \<Rightarrow>
                   (let (context, calls) =
                          retrieve_context (env_redis_imported env) dumps raw_log commit
                            (Some vdb) None
                    in Inr (rag_llm_generate (Some raw_log) (Some context), calls)))
            else
              Inr (rag_llm_generate (Some raw_log) (Some \<lparr>ctx_code = [], ctx_docs = []\<rparr>), [])))"

text \<open>Sample inputs: an environment without Redis, and clients with and without a backend.\<close>

definition no_redis_env :: rag_env where
  "no_redis_env =
     \<lparr>env_redis_imported = False, env_redis_url = None, env_from_url_ok = False,
      env_ingest_raises = None\<rparr>"

definition live_vdb :: vector_db_client where
  "live_vdb = \<lparr>vdb_url = Some ''redis://localhost:6379'', vdb_enabled = True,
               vdb_has_client = True\<rparr>"

definition idle_vdb :: vector_db_client where
  "idle_vdb = \<lparr>vdb_url = None, vdb_enabled = False, vdb_has_client = False\<rparr>"

text \<open>The log of a run whose login call was refused, as \<open>save_raw_failure_log\<close> builds it.\<close>

definition refused_log :: failure_log where
  "refused_log =
     build_payload (fst (run_native_tests login_down_net ''http://127.0.0.1:8000/''))
       ''abc123'' ''run-1'' ''2025-01-01T00:00:00+00:00''"


section \<open>Skyflow tokenization client (verifypulse/integrations/skyflow_client.py)\<close>

definition DEFAULT_SKYFLOW_BASE_URL :: string where
  "DEFAULT_SKYFLOW_BASE_URL = ''https://prod.skyflowapis.com/v1''"

text \<open>The client's configuration. The timeout, a float, plays no part in what follows.\<close>

record skyflow_client =
  sf_vault_id :: "string option"
  sf_api_token :: "string option"
  sf_base_url :: string
  sf_enabled :: bool

text \<open>\<open>a or b\<close> on optional strings: \<open>a\<close> when it is neither \<open>None\<close> nor empty, else \<open>b\<close>.\<close>

definition str_or :: "string option \<Rightarrow> string option \<Rightarrow> string option" where
  "str_or a b = (case a of Some s \<Rightarrow> (if s \<noteq> [] then a else b) | None \<Rightarrow> b)"

definition str_truthy :: "string option \<Rightarrow> bool" where
  "str_truthy a = (case a of Some s \<Rightarrow> s \<noteq> [] | None \<Rightarrow> False)"

text \<open>
  The constructor: the arguments \<open>vault_id\<close>, \<open>api_token\<close>, \<open>base_url\<close> and \<open>enabled\<close>
  (each \<open>None\<close> when omitted) and the environment variables \<open>SKYFLOW_VAULT_ID\<close>,
  \<open>SKYFLOW_API_TOKEN\<close> and \<open>SKYFLOW_BASE_URL\<close>.
\<close>

definition SkyflowClient ::
  "string option \<Rightarrow> string option \<Rightarrow> string option \<Rightarrow> bool option \<Rightarrow>
   string option \<Rightarrow> string option \<Rightarrow> string option \<Rightarrow> skyflow_client" where
  "SkyflowClient vault_id api_token base_url enabled env_vault_id env_token env_base =
     (let env_base_url = (case env_base of Some b \<Rightarrow> b | None \<Rightarrow> DEFAULT_SKYFLOW_BASE_URL);
          v = str_or vault_id env_vault_id;
          t = str_or api_token env_token;
          b = (case base_url of Some s \<Rightarrow> (if s \<noteq> [] then s else env_base_url)
               | None \<Rightarrow> env_base_url);
          configured = (str_truthy v \<and> str_truthy t)
      in \<lparr>sf_vault_id = v, sf_api_token = t, sf_base_url = b,
          sf_enabled = (case enabled of None \<Rightarrow> configured | Some e \<Rightarrow> e \<and> configured)\<rparr>)"

text \<open>An optional string inside an f-string: \<open>None\<close> prints as its name.\<close>

definition fmt_opt :: "string option \<Rightarrow> string" where
  "fmt_opt a = (case a of Some s \<Rightarrow> s | None \<Rightarrow> ''None'')"

definition skyflow_headers :: "skyflow_client \<Rightarrow> headers" where
  "skyflow_headers c =
     [(''Authorization'', ''Bearer '' @ fmt_opt (sf_api_token c)),
      (''Content-Type'', ''application/json'')]"

definition tokenize_endpoint :: "skyflow_client \<Rightarrow> string" where
  "tokenize_endpoint c = sf_base_url c @ ''/vaults/'' @ fmt_opt (sf_vault_id c) @ ''/tokenize''"

text \<open>
  What \<open>httpx.post\<close> gives back: it raises, or returns a response with a status code, a
  text and a body that \<open>response.json()\<close> decodes or fails to decode.
\<close>

record skyflow_response =
  sr_status_code :: int
  sr_text :: string
  sr_json :: "py_exception + json"

type_synonym post_call = "string \<times> headers \<times> json"

type_synonym http_post = "string \<Rightarrow> headers \<Rightarrow> json \<Rightarrow> py_exception + skyflow_response"

record tokenize_result =
  tr_enabled :: bool
  tr_original :: json
  tr_tokenized :: json

text \<open>\<open>d.get(key, default)\<close>: only a dictionary has the method.\<close>

definition dict_get :: "json \<Rightarrow> string \<Rightarrow> json \<Rightarrow> py_error + json" where
  "dict_get d key dflt =
     (case d of
        JObj kvs \<Rightarrow> Inr (case map_of kvs key of Some v \<Rightarrow> v | None \<Rightarrow> dflt)
      | _ \<Rightarrow> Inl AttributeError)"

text \<open>
  \<open>v[0]\<close>: the first member of a list or the first character of a string, an
  \<open>IndexError\<close> when they are empty, a \<open>KeyError\<close> on a dictionary (its keys are strings),
  a \<open>TypeError\<close> on anything else.
\<close>

definition subscript0 :: "json \<Rightarrow> py_error + json" where
  "subscript0 v =
     (case v of
        JArr xs \<Rightarrow> (case xs of [] \<Rightarrow> Inl IndexError | x # _ \<Rightarrow> Inr x)
      | JStr s \<Rightarrow> (case s of [] \<Rightarrow> Inl IndexError | c # _ \<Rightarrow> Inr (JStr [c]))
      | JObj kvs \<Rightarrow> Inl KeyError
      | _ \<Rightarrow> Inl TypeError)"

definition fallback_result :: "json \<Rightarrow> tokenize_result" where
  "fallback_result rec = \<lparr>tr_enabled = False, tr_original = rec, tr_tokenized = rec\<rparr>"

text \<open>
  The body of the \<open>try\<close>: the value returned or the exception raised inside it, and the
  requests posted.
\<close>

definition tokenize_attempt ::
  "skyflow_client \<Rightarrow> http_post \<Rightarrow> json \<Rightarrow> (py_error + tokenize_result) \<times> post_call list" where
  "tokenize_attempt c post rec =
     (let payload = JObj [(''records'', JArr [JObj [(''fields'', rec)]])];
          call = (tokenize_endpoint c, skyflow_headers c, payload)
      in case post (tokenize_endpoint c) (skyflow_headers c) payload of
           Inl exc \<Rightarrow> (Inl (Raised exc), [call])
         | Inr response \<Rightarrow>
             (if sr_status_code response div 100 \<noteq> 2 then (Inr (fallback_result rec), [call])
              else
                (case sr_json response of
                   Inl exc \<Rightarrow> (Inl (Raised exc), [call])
                 | Inr data \<Rightarrow>
                     (case dict_get data ''records'' (JArr [JObj []]) of
                        Inl e \<Rightarrow> (Inl e, [call])
                      | Inr records \<Rightarrow>
                          (case subscript0 records of
                             Inl e \<Rightarrow> (Inl e, [call])
                           | Inr first \<Rightarrow>
                               (case dict_get first ''fields'' (JObj []) of
                                  Inl e \<Rightarrow> (Inl e, [call])
                                | Inr flds \<Rightarrow>
                                    (Inr \<lparr>tr_enabled = True, tr_original = rec,
                                          tr_tokenized =
                                            (if truthy flds then flds else rec)\<rparr>,
                                     [call])))))))"

text \<open>
  \<open>tokenize_record\<close>: the early return of a disabled client, else the \<open>try\<close> with its
  \<open>except Exception\<close> handler. The first component is what the call returns, or the
  exception leaving it; the second the requests posted.
\<close>

definition tokenize_record ::
  "skyflow_client \<Rightarrow> http_post \<Rightarrow> json \<Rightarrow> (py_error + tokenize_result) \<times> post_call list" where
  "tokenize_record c post rec =
     (if \<not> sf_enabled c then (Inr (fallback_result rec), [])
      else
        (case tokenize_attempt c post rec of
           (Inr result, calls) \<Rightarrow> (Inr result, calls)
         | (Inl exc, calls) \<Rightarrow> (Inr (fallback_result rec), calls)))"

text \<open>Sample inputs: a record, a service that answers 503, and one that tokenizes.\<close>

definition ssn_record :: json where
  "ssn_record = JObj [(''ssn'', JStr ''123-45-6789'')]"

definition unavailable_post :: http_post where
  "unavailable_post u hs body =
     Inr \<lparr>sr_status_code = 503, sr_text = ''Service Unavailable'',
          sr_json = Inl \<lparr>exc_str = ''Expecting value'', exc_repr = ''JSONDecodeError()''\<rparr>\<rparr>"

definition tokenizing_post :: http_post where
  "tokenizing_post u hs body =
     Inr \<lparr>sr_status_code = 200, sr_text = [],
          sr_json = Inr (JObj [(''records'',
                          JArr [JObj [(''fields'', JObj [(''ssn'', JStr ''tok-1'')])]])])\<rparr>"


section \<open>Key-value store with in-memory fallback (verifypulse/integrations/redis_client.py)\<close>

text \<open>
  The Redis connection is outside the repository. Its state is a value of type \<open>'b\<close>, and
  its three commands are functions of that state which raise or answer; \<open>SET\<close> also
  returns the state after it.
\<close>

record 'b redis_ops =
  backend_set :: "'b \<Rightarrow> string \<Rightarrow> string \<Rightarrow> py_exception + 'b"
  backend_get :: "'b \<Rightarrow> string \<Rightarrow> py_exception + string option"
  backend_keys :: "'b \<Rightarrow> string \<Rightarrow> py_exception + string list"

text \<open>
  The instance: the flag \<open>use_memory\<close>, the dictionary \<open>_store\<close> in insertion order, and
  the connection, if there is one.
\<close>

record 'b verify_pulse_redis =
  use_memory :: bool
  store :: "(string \<times> string) list"
  client :: "'b option"

text \<open>\<open>str.strip()\<close> leaves nothing exactly when every character is white space.\<close>

definition is_space :: "char \<Rightarrow> bool" where
  "is_space c = (c \<in> set [CHR '' '', CHR 0x09, CHR 0x0A, CHR 0x0B, CHR 0x0C, CHR 0x0D,
                           CHR 0x1C, CHR 0x1D, CHR 0x1E, CHR 0x1F, CHR 0x85, CHR 0xA0])"

text \<open>
  The constructor: the argument \<open>url\<close>, the \<open>REDIS_URL\<close> of the configuration (or the
  error raised when the configuration does not load), and the outcome of connecting
  and pinging.
\<close>

definition VerifyPulseRedis ::
  "string option \<Rightarrow> (py_exception + string) \<Rightarrow> (string \<Rightarrow> py_exception + 'b) \<Rightarrow>
   'b verify_pulse_redis" where
  "VerifyPulseRedis url_arg config_url connect =
     (let u = (case url_arg of
                 Some s \<Rightarrow> s
               | None \<Rightarrow> (case config_url of Inr s \<Rightarrow> s | Inl exc \<Rightarrow> []))
      in if u = [] \<or> list_all is_space u then
           \<lparr>use_memory = True, store = [], client = None\<rparr>
         else
           (case connect u of
              Inr b \<Rightarrow> \<lparr>use_memory = False, store = [], client = Some b\<rparr>
            | Inl exc \<Rightarrow> \<lparr>use_memory = True, store = [], client = None\<rparr>))"

text \<open>
  Each public method is a \<open>try\<close> whose \<open>except Exception\<close> handler switches to the
  in-memory store. The result is what the method returns with the instance after the
  call, or \<open>Inl\<close> for an exception leaving the method.
\<close>

definition vp_set ::
  "'b redis_ops \<Rightarrow> 'b verify_pulse_redis \<Rightarrow> string \<Rightarrow> string \<Rightarrow>
   py_error + 'b verify_pulse_redis" where
  "vp_set ops r key val =
     (let attempt =
        (if use_memory r then Inr (r\<lparr>store := AList.update key val (store r)\<rparr>)
         else
           (case client r of
              Some b \<Rightarrow>
                (case backend_set ops b key val of
                   Inr b' \<Rightarrow> Inr (r\<lparr>client := Some b'\<rparr>)
                 | Inl exc \<Rightarrow> Inl exc)
            | None \<Rightarrow> Inr r))
      in case attempt of
           Inr r' \<Rightarrow> Inr r'
         | Inl exc \<Rightarrow> Inr (r\<lparr>use_memory := True, store := AList.update key val (store r)\<rparr>))"

definition vp_get ::
  "'b redis_ops \<Rightarrow> 'b verify_pulse_redis \<Rightarrow> string \<Rightarrow>
   py_error + string option \<times> 'b verify_pulse_redis" where
  "vp_get ops r key =
     (let attempt =
        (if use_memory r then Inr (map_of (store r) key)
         else
           (case client r of
              Some b \<Rightarrow>
                (case backend_get ops b key of
                   Inr result \<Rightarrow>
                     Inr (case result of
                            Some s \<Rightarrow> (if s \<noteq> [] then Some s else None)
                          | None \<Rightarrow> None)
                 | Inl exc \<Rightarrow> Inl exc)
            | None \<Rightarrow> Inr None))
      in case attempt of
           Inr v \<Rightarrow> Inr (v, r)
         | Inl exc \<Rightarrow> Inr (map_of (store r) key, r\<lparr>use_memory := True\<rparr>))"

definition store_requirement ::
  "'b redis_ops \<Rightarrow> 'b verify_pulse_redis \<Rightarrow> string \<Rightarrow> string \<Rightarrow>
   py_error + 'b verify_pulse_redis" where
  "store_requirement ops r requirement_id text =
     (let attempt =
        (if use_memory r then Inr (r\<lparr>store := AList.update requirement_id text (store r)\<rparr>)
         else
           (case client r of
              Some b \<Rightarrow>
                (case backend_set ops b requirement_id text of
                   Inr b' \<Rightarrow> Inr (r\<lparr>client := Some b'\<rparr>)
                 | Inl exc \<Rightarrow> Inl exc)
            | None \<Rightarrow> Inr r))
      in case attempt of
           Inr r' \<Rightarrow> Inr r'
         | Inl exc \<Rightarrow>
             Inr (r\<lparr>use_memory := True,
                    store := AList.update requirement_id text (store r)\<rparr>))"

definition get_requirement ::
  "'b redis_ops \<Rightarrow> 'b verify_pulse_redis \<Rightarrow> string \<Rightarrow>
   py_error + string option \<times> 'b verify_pulse_redis" where
  "get_requirement ops r requirement_id =
     (let attempt =
        (if use_memory r then Inr (map_of (store r) requirement_id)
         else
           (case client r of
              Some b \<Rightarrow>
                (case backend_get ops b requirement_id of
                   Inr result \<Rightarrow>
                     Inr (case result of
                            Some s \<Rightarrow> (if s \<noteq> [] then Some s else None)
                          | None \<Rightarrow> None)
                 | Inl exc \<Rightarrow> Inl exc)
            | None \<Rightarrow> Inr None))
      in case attempt of
           Inr v \<Rightarrow> Inr (v, r)
         | Inl exc \<Rightarrow> Inr (map_of (store r) requirement_id, r\<lparr>use_memory := True\<rparr>))"

text \<open>
  The pattern matching of the in-memory store: \<open>*\<close> is every key, a pattern ending in
  \<open>*\<close> is a prefix, any other pattern is a substring.
\<close>

definition memory_keys :: "(string \<times> string) list \<Rightarrow> string \<Rightarrow> string list" where
  "memory_keys st pattern =
     (if pattern = ''*'' then map fst st
      else if pattern \<noteq> [] \<and> last pattern = CHR ''*'' then
        filter (\<lambda>k. prefix (butlast pattern) k) (map fst st)
      else filter (\<lambda>k. contains pattern k) (map fst st))"

definition vp_keys ::
  "'b redis_ops \<Rightarrow> 'b verify_pulse_redis \<Rightarrow> string \<Rightarrow>
   py_error + string list \<times> 'b verify_pulse_redis" where
  "vp_keys ops r pattern =
     (let attempt =
        (if use_memory r then Inr (memory_keys (store r) pattern)
         else
           (case client r of
              Some b \<Rightarrow>
                (case backend_keys ops b pattern of
                   Inr ks \<Rightarrow> Inr ks
                 | Inl exc \<Rightarrow> Inl exc)
            | None \<Rightarrow> Inr []))
      in case attempt of
           Inr ks \<Rightarrow> Inr (ks, r)
         | Inl exc \<Rightarrow> Inr (memory_keys (store r) pattern, r\<lparr>use_memory := True\<rparr>))"

text \<open>
  \<open>save_run_result\<close>. \<open>json.dumps\<close> is a parameter: it raises or returns the text. Any
  exception of the \<open>try\<close> is printed and dropped.
\<close>

definition save_run_result ::
  "'b redis_ops \<Rightarrow> ('p \<Rightarrow> py_exception + string) \<Rightarrow> 'b verify_pulse_redis \<Rightarrow> string \<Rightarrow> 'p \<Rightarrow>
   py_error + 'b verify_pulse_redis" where
  "save_run_result ops dumps r run_id payload =
     (let key = ''run:'' @ run_id
      in case dumps payload of
           Inl exc \<Rightarrow> Inr r
         | Inr text \<Rightarrow>
             (case vp_set ops r key text of
                Inr r' \<Rightarrow> Inr r'
              | Inl exc \<Rightarrow> Inr r))"

text \<open>
  The loop of \<open>list_run_history\<close> over the keys: an entry that is missing or empty, or
  that \<open>json.loads\<close> (a parameter) rejects, is skipped; an exception leaving \<open>get\<close> ends
  the loop with the results so far.
\<close>

fun history_loop ::
  "'b redis_ops \<Rightarrow> (string \<Rightarrow> py_exception + 'p) \<Rightarrow> 'b verify_pulse_redis \<Rightarrow> string list \<Rightarrow>
   'p list \<Rightarrow> 'p list \<times> 'b verify_pulse_redis" where
  "history_loop ops loads r [] results = (results, r)"
| "history_loop ops loads r (key # ks) results =
     (case vp_get ops r key of
        Inl exc \<Rightarrow> (results, r)
      | Inr (raw, r') \<Rightarrow>
          (case raw of
             None \<Rightarrow> history_loop ops loads r' ks results
           | Some text \<Rightarrow>
               (if text = [] then history_loop ops loads r' ks results
                else
                  (case loads text of
                     Inr v \<Rightarrow> history_loop ops loads r' ks (results @ [v])
                   | Inl exc \<Rightarrow> history_loop ops loads r' ks results))))"

definition list_run_history ::
  "'b redis_ops \<Rightarrow> (string \<Rightarrow> py_exception + 'p) \<Rightarrow> 'b verify_pulse_redis \<Rightarrow>
   py_error + 'p list \<times> 'b verify_pulse_redis" where
  "list_run_history ops loads r =
     (case vp_keys ops r ''run:*'' of
        Inl exc \<Rightarrow> Inr ([], r)
      | Inr (ks, r') \<Rightarrow> Inr (history_loop ops loads r' ks []))"

text \<open>
  A client of the store: any sequence of calls of the five methods on one instance, each
  made on the instance as the previous call left it. An exception leaving a method ends
  the sequence.
\<close>

datatype store_call =
    CallSet string string
  | CallGet string
  | CallKeys string
  | CallStoreRequirement string string
  | CallGetRequirement string

definition call_method ::
  "'b redis_ops \<Rightarrow> 'b verify_pulse_redis \<Rightarrow> store_call \<Rightarrow> py_error + 'b verify_pulse_redis" where
  "call_method ops r c =
     (case c of
        CallSet k v \<Rightarrow> vp_set ops r k v
      | CallGet k \<Rightarrow> (case vp_get ops r k of Inl e \<Rightarrow> Inl e | Inr (x, r') \<Rightarrow> Inr r')
      | CallKeys p \<Rightarrow> (case vp_keys ops r p of Inl e \<Rightarrow> Inl e | Inr (ks, r') \<Rightarrow> Inr r')
      | CallStoreRequirement k v \<Rightarrow> store_requirement ops r k v
      | CallGetRequirement k \<Rightarrow>
          (case get_requirement ops r k of Inl e \<Rightarrow> Inl e | Inr (x, r') \<Rightarrow> Inr r'))"

fun call_all ::
  "'b redis_ops \<Rightarrow> 'b verify_pulse_redis \<Rightarrow> store_call list \<Rightarrow> py_error + 'b verify_pulse_redis" where
  "call_all ops r [] = Inr r"
| "call_all ops r (c # cs) =
     (case call_method ops r c of
        Inl e \<Rightarrow> Inl e
      | Inr r' \<Rightarrow> call_all ops r' cs)"

text \<open>What one key contributes to the history in the in-memory mode.\<close>

definition entry_of :: "(string \<Rightarrow> py_exception + 'p) \<Rightarrow> (string \<times> string) list \<Rightarrow> string \<Rightarrow> 'p list" where
  "entry_of loads st key =
     (case map_of st key of
        None \<Rightarrow> []
      | Some text \<Rightarrow>
          (if text = [] then []
           else (case loads text of Inr v \<Rightarrow> [v] | Inl exc \<Rightarrow> [])))"

text \<open>
  Sample inputs: a backend whose every command raises, and a codec that knows one
  document.
\<close>

definition connection_lost :: py_exception where
  "connection_lost = \<lparr>exc_str = ''Connection closed by server.'',
                      exc_repr = ''ConnectionError('Connection closed by server.')''\<rparr>"

definition failing_ops :: "unit redis_ops" where
  "failing_ops =
     \<lparr>backend_set = (\<lambda>b k v. Inl connection_lost),
      backend_get = (\<lambda>b k. Inl connection_lost),
      backend_keys = (\<lambda>b p. Inl connection_lost)\<rparr>"

definition broken_backend :: "unit verify_pulse_redis" where
  "broken_backend = \<lparr>use_memory = False, store = [], client = Some ()\<rparr>"

definition sample_payload :: json where
  "sample_payload = JObj [(''collection_id'', JStr ''c-1''), (''passed'', JBool True)]"

definition sample_dumps :: "json \<Rightarrow> py_exception + string" where
  "sample_dumps v =
     (if v = sample_payload then Inr ''{\"collection_id\": \"c-1\", \"passed\": true}''
      else Inl \<lparr>exc_str = ''not serializable'', exc_repr = ''TypeError()''\<rparr>)"

definition sample_loads :: "string \<Rightarrow> py_exception + json" where
  "sample_loads s =
     (if s = ''{\"collection_id\": \"c-1\", \"passed\": true}'' then Inr sample_payload
      else Inl \<lparr>exc_str = ''Expecting value'', exc_repr = ''JSONDecodeError()''\<rparr>)"


section \<open>Properties of the native test runner\<close>

lemma record_and_return_response:
  "record_and_return h (Some resp) m u b e = (response_record resp, h @ [response_record resp])"
  by (simp add: record_and_return_def response_record_def Let_def)

lemma record_and_return_exception:
  "record_and_return h None (tc_method test) u (tc_payload test) (Some exc) =
     (exception_record test u exc, h @ [exception_record test u exc])"
  by (simp add: record_and_return_def exception_record_def Let_def)

lemma response_body_response_record:
  "response_body (response_record resp) =
     (case resp_json resp of Some v \<Rightarrow> v | None \<Rightarrow> JStr (resp_text resp))"
  by (simp add: record_and_return_def response_record_def Let_def)

lemma exception_record_fields:
  "status_code (exception_record test u exc) = 0"
  "response_body (exception_record test u exc) = JStr (exc_str exc)"
  "http_method (exception_record test u exc) = tc_method test"
  "url (exception_record test u exc) = u"
  "request_body (exception_record test u exc) = tc_payload test"
  by (simp_all add: record_and_return_def exception_record_def Let_def)

lemma on_exception_eq:
  "on_exception h test u exc =
     \<lparr>success = False, request_history = h @ [exception_record test u exc],
      failure = Some \<lparr>test_name = tc_name test,
                      reason = ''Exception calling '' @ tc_endpoint test @ '': '' @ exc_repr exc,
                      failed_record = exception_record test u exc\<rparr>\<rparr>"
  by (simp add: on_exception_def record_and_return_exception)

text \<open>A passing case appends one record, issues one call and hands over to the next case.\<close>

lemma run_loop_ok_step:
  assumes "case_ok net base i test"
  shows "\<exists>rec call. run_loop net base i (test # rest) h s =
           run_loop net base (Suc i) rest (h @ [rec]) (s @ [(i, call)])"
  using assms
  by (auto simp: case_ok_def Let_def record_and_return_response response_body_response_record
      split: sum.splits option.splits)

text \<open>A case that does not pass ends the run there, with one more record.\<close>

lemma run_loop_fail_step:
  assumes "\<not> case_ok net base i test"
  shows "\<exists>rec f s'. run_loop net base i (test # rest) h s =
           (\<lparr>success = False, request_history = h @ [rec], failure = Some f\<rparr>, s') \<and>
           failed_record f = rec \<and> test_name f = tc_name test \<and>
           (s' = s \<or> (\<exists>call. s' = s @ [(i, call)]))"
  using assms
  by (auto simp: case_ok_def Let_def record_and_return_response response_body_response_record
        on_exception_eq
      split: sum.splits option.splits)

lemma run_loop_prefix:
  assumes "\<forall>j<length pre. case_ok net base (k + j) (pre ! j)"
  shows "\<exists>h' s'. run_loop net base k (pre @ rest) h s =
             run_loop net base (k + length pre) rest (h @ h') (s @ s') \<and>
           length h' = length pre \<and> map fst s' = [k ..< k + length pre]"
  using assms
proof (induction pre arbitrary: k h s)
  case Nil
  show ?case by (rule exI [of _ "[]"], rule exI [of _ "[]"]) simp
next
  case (Cons test pre)
  from Cons.prems have ok: "case_ok net base k test" by auto
  from Cons.prems have later: "\<forall>j<length pre. case_ok net base (Suc k + j) (pre ! j)" by auto
  from run_loop_ok_step [OF ok] obtain rec call where
    step: "run_loop net base k (test # pre @ rest) h s =
           run_loop net base (Suc k) (pre @ rest) (h @ [rec]) (s @ [(k, call)])" by blast
  from Cons.IH [OF later, of "h @ [rec]" "s @ [(k, call)]"]
  obtain h' s' where
    ih: "run_loop net base (Suc k) (pre @ rest) (h @ [rec]) (s @ [(k, call)]) =
         run_loop net base (Suc k + length pre) rest ((h @ [rec]) @ h') ((s @ [(k, call)]) @ s')"
    and len: "length h' = length pre" and idx: "map fst s' = [Suc k ..< Suc k + length pre]"
    by blast
  show ?case
  proof (rule exI [of _ "rec # h'"], rule exI [of _ "(k, call) # s'"], intro conjI)
    show "run_loop net base k ((test # pre) @ rest) h s =
          run_loop net base (k + length (test # pre)) rest (h @ rec # h') (s @ (k, call) # s')"
      using step ih by simp
    show "length (rec # h') = length (test # pre)" using len by simp
    show "map fst ((k, call) # s') = [k ..< k + length (test # pre)]"
    proof -
      have "[k ..< k + length (test # pre)] = k # [Suc k ..< Suc k + length pre]"
        by (simp add: upt_conv_Cons del: upt_Suc)
      then show ?thesis using idx by simp
    qed
  qed
qed

text \<open>When the cases before position \<open>i\<close> pass, the loop arrives at case \<open>i\<close> with \<open>i\<close>
  records and one call for each earlier case.\<close>

lemma run_tests_reach:
  assumes i: "i < length tcs"
    and before: "\<forall>j<i. case_ok net base j (tcs ! j)"
  shows "\<exists>h s. run_tests net base tcs = run_loop net base i (tcs ! i # drop (Suc i) tcs) h s \<and>
           length h = i \<and> map fst s = [0 ..< i]"
proof -
  have split: "tcs = take i tcs @ tcs ! i # drop (Suc i) tcs"
    using i by (rule id_take_nth_drop)
  have "\<forall>j<length (take i tcs). case_ok net base (0 + j) (take i tcs ! j)"
    using before i by simp
  from run_loop_prefix [OF this, of "tcs ! i # drop (Suc i) tcs" "[]" "[]"]
  obtain h' s' where
    pre: "run_loop net base 0 (take i tcs @ tcs ! i # drop (Suc i) tcs) [] [] =
          run_loop net base i (tcs ! i # drop (Suc i) tcs) h' s'"
    and len: "length h' = i" and idx: "map fst s' = [0 ..< i]"
    using i by auto
  have "run_tests net base tcs = run_loop net base i (tcs ! i # drop (Suc i) tcs) h' s'"
    using split pre by (simp add: run_tests_def)
  with len idx show ?thesis by blast
qed

lemma run_tests_all_ok:
  assumes "\<forall>i<length tcs. case_ok net base i (tcs ! i)"
  shows "success (fst (run_tests net base tcs)) \<and>
         length (request_history (fst (run_tests net base tcs))) = length tcs \<and>
         failure (fst (run_tests net base tcs)) = None \<and>
         map fst (snd (run_tests net base tcs)) = [0 ..< length tcs]"
proof -
  from assms have "\<forall>j<length tcs. case_ok net base (0 + j) (tcs ! j)" by simp
  from run_loop_prefix [OF this, of "[]" "[]" "[]"] show ?thesis
    by (auto simp: run_tests_def)
qed

lemma run_tests_first_failure:
  assumes i: "i < length tcs"
    and before: "\<forall>j<i. case_ok net base j (tcs ! j)"
    and bad: "\<not> case_ok net base i (tcs ! i)"
  shows "\<not> success (fst (run_tests net base tcs)) \<and>
         length (request_history (fst (run_tests net base tcs))) = i + 1 \<and>
         (\<exists>f. failure (fst (run_tests net base tcs)) = Some f \<and>
              test_name f = tc_name (tcs ! i) \<and>
              failed_record f = last (request_history (fst (run_tests net base tcs)))) \<and>
         (\<forall>(j, call) \<in> set (snd (run_tests net base tcs)). j \<le> i)"
proof -
  from run_tests_reach [OF i before] obtain h' s' where
    pre: "run_tests net base tcs = run_loop net base i (tcs ! i # drop (Suc i) tcs) h' s'"
    and len: "length h' = i" and idx: "map fst s' = [0 ..< i]"
    by blast
  from run_loop_fail_step [OF bad, of "drop (Suc i) tcs" h' s']
  obtain rec f s'' where
    step: "run_loop net base i (tcs ! i # drop (Suc i) tcs) h' s' =
           (\<lparr>success = False, request_history = h' @ [rec], failure = Some f\<rparr>, s'')"
    and f: "failed_record f = rec" "test_name f = tc_name (tcs ! i)"
    and s'': "s'' = s' \<or> (\<exists>call. s'' = s' @ [(i, call)])"
    by blast
  have run: "run_tests net base tcs =
             (\<lparr>success = False, request_history = h' @ [rec], failure = Some f\<rparr>, s'')"
    using pre step by simp
  have "set (map fst s'') \<subseteq> {0..i}"
  proof -
    have "set (map fst s') = {0..<i}" using idx by simp
    moreover have "set (map fst s'') \<subseteq> set (map fst s') \<union> {i}"
      using s'' by auto
    ultimately show ?thesis by (simp only: subset_iff) fastforce
  qed
  then have "\<forall>j \<in> set (map fst s''). j \<le> i" by auto
  then have "\<forall>(j, call) \<in> set s''. j \<le> i" by auto
  with run len f show ?thesis by simp
qed

lemmas runner_eval =
  run_tests_def run_native_tests_def load_test_cases_def healthy_net_def
  broken_login_net_def login_down_net_def sample_response_def refused_def dispatch_def
  upper_def upper_char_def rstrip_slash_def record_and_return_def on_exception_def Let_def
  str_int_def case_ok_def patch_suite_def lowercase_suite_def ValueError_def repr_str_def
  repr_char_def

lemma digits_200: "digits 200 = ''200''"
  by (simp add: digits.simps)

lemma digits_401: "digits 401 = ''401''"
  by (simp add: digits.simps)

lemma digits_500: "digits 500 = ''500''"
  by (simp add: digits.simps)

lemma all_less_two: "(\<forall>i<2. P i) = (P (0::nat) \<and> P 1)"
proof -
  have "\<And>i::nat. i < 2 \<longleftrightarrow> i = 0 \<or> i = 1" by arith
  then show ?thesis by auto
qed

lemma all_less_one: "(\<forall>i<1. P i) = P (0::nat)"
  by simp

text \<open>
  C1. For every test suite: when every case passes (its status is in its expected set
  and its JSON requirement is met), the run returns \<open>success = True\<close> with one history
  record per test case; and when the first case that does not pass is at position \<open>i\<close>,
  the run returns \<open>success = False\<close> with exactly \<open>i + 1\<close> history records, and no call
  at all was issued for a position greater than \<open>i\<close>. \<open>run_native_tests\<close> is this run on
  the configured suite.
\<close>

theorem run_tests_stop_on_first_failure:
  "((\<forall>i<length tcs. case_ok net base i (tcs ! i)) \<longrightarrow>
      success (fst (run_tests net base tcs)) \<and>
      length (request_history (fst (run_tests net base tcs))) = length tcs \<and>
      failure (fst (run_tests net base tcs)) = None) \<and>
   (\<forall>i<length tcs.
      (\<forall>j<i. case_ok net base j (tcs ! j)) \<and> \<not> case_ok net base i (tcs ! i) \<longrightarrow>
      \<not> success (fst (run_tests net base tcs)) \<and>
      length (request_history (fst (run_tests net base tcs))) = i + 1 \<and>
      failure (fst (run_tests net base tcs)) \<noteq> None \<and>
      (\<forall>(j, call) \<in> set (snd (run_tests net base tcs)). j \<le> i))"
proof (intro conjI impI allI)
  assume "\<forall>i<length tcs. case_ok net base i (tcs ! i)"
  from run_tests_all_ok [OF this]
  show "success (fst (run_tests net base tcs))"
    and "length (request_history (fst (run_tests net base tcs))) = length tcs"
    and "failure (fst (run_tests net base tcs)) = None"
    by simp_all
next
  fix i
  assume i: "i < length tcs"
    and h: "(\<forall>j<i. case_ok net base j (tcs ! j)) \<and> \<not> case_ok net base i (tcs ! i)"
  from h have before: "\<forall>j<i. case_ok net base j (tcs ! j)"
    and bad: "\<not> case_ok net base i (tcs ! i)" by simp_all
  from run_tests_first_failure [OF i before bad]
  show "\<not> success (fst (run_tests net base tcs))"
    and "length (request_history (fst (run_tests net base tcs))) = i + 1"
    and "failure (fst (run_tests net base tcs)) \<noteq> None"
    and "\<forall>(j, call) \<in> set (snd (run_tests net base tcs)). j \<le> i"
    by auto
qed

theorem run_tests_stop_on_first_failure_witness:
  "case_ok healthy_net ''http://127.0.0.1:8000/'' 0 (load_test_cases ! 0) \<and>
   case_ok healthy_net ''http://127.0.0.1:8000/'' 1 (load_test_cases ! 1) \<and>
   success (fst (run_native_tests healthy_net ''http://127.0.0.1:8000/'')) \<and>
   length (request_history (fst (run_native_tests healthy_net ''http://127.0.0.1:8000/''))) = 2 \<and>
   case_ok broken_login_net ''http://127.0.0.1:8000/'' 0 (load_test_cases ! 0) \<and>
   \<not> case_ok broken_login_net ''http://127.0.0.1:8000/'' 1 (load_test_cases ! 1) \<and>
   \<not> success (fst (run_native_tests broken_login_net ''http://127.0.0.1:8000/'')) \<and>
   length (request_history (fst (run_native_tests broken_login_net ''http://127.0.0.1:8000/''))) = 2"
proof -
  have len: "length load_test_cases = 2" by (simp add: load_test_cases_def)
  have ok: "\<forall>i<length load_test_cases.
      case_ok healthy_net ''http://127.0.0.1:8000/'' i (load_test_cases ! i)"
    unfolding len all_less_two by (simp add: runner_eval)
  have before: "\<forall>j<1. case_ok broken_login_net ''http://127.0.0.1:8000/'' j (load_test_cases ! j)"
    unfolding all_less_one by (simp add: runner_eval)
  have bad: "\<not> case_ok broken_login_net ''http://127.0.0.1:8000/'' 1 (load_test_cases ! 1)"
    by (simp add: runner_eval)
  have one: "1 < length load_test_cases" by (simp add: len)
  note pass = run_tests_stop_on_first_failure
    [of load_test_cases healthy_net "''http://127.0.0.1:8000/''", THEN conjunct1, THEN mp, OF ok]
  note stop = run_tests_stop_on_first_failure
    [of load_test_cases broken_login_net "''http://127.0.0.1:8000/''", THEN conjunct2,
     THEN spec, of 1, THEN mp, OF one, THEN mp, OF conjI, OF before bad]
  from pass stop ok before bad show ?thesis
    by (simp add: run_native_tests_def len all_less_two)
qed

text \<open>
  C3. A transport-level exception while executing test case \<open>i\<close> (the earlier cases
  having passed) does not propagate: the run returns a failed result whose history ends
  with a record of status code 0 and a response body equal to the text of the exception,
  and whose failure has the test name, a reason and that same record, as an assertion
  failure has.
\<close>

theorem transport_exception_is_recorded:
  assumes "i < length tcs"
    and "\<forall>j<i. case_ok net base j (tcs ! j)"
    and "dispatch (tc_method (tcs ! i)) (rstrip_slash base @ tc_endpoint (tcs ! i))
           (tc_payload (tcs ! i)) = Inr call"
    and "net i call = Inl exc"
  shows "\<exists>h rec sent.
           run_tests net base tcs =
             (\<lparr>success = False, request_history = h @ [rec],
               failure = Some \<lparr>test_name = tc_name (tcs ! i),
                               reason = ''Exception calling '' @ tc_endpoint (tcs ! i) @ '': ''
                                        @ exc_repr exc,
                               failed_record = rec\<rparr>\<rparr>, sent) \<and>
           length h = i \<and> status_code rec = 0 \<and> response_body rec = JStr (exc_str exc)"
proof -
  from run_tests_reach [OF assms(1,2)] obtain h s where
    pre: "run_tests net base tcs = run_loop net base i (tcs ! i # drop (Suc i) tcs) h s"
    and len: "length h = i"
    by blast
  have "run_loop net base i (tcs ! i # drop (Suc i) tcs) h s =
        (on_exception h (tcs ! i) (rstrip_slash base @ tc_endpoint (tcs ! i)) exc,
         s @ [(i, call)])"
    using assms(3,4) by (simp add: Let_def)
  with pre len show ?thesis
    by (simp add: on_exception_eq exception_record_fields)
qed

theorem transport_exception_is_recorded_witness:
  "1 < length load_test_cases \<and>
   case_ok login_down_net ''http://127.0.0.1:8000/'' 0 (load_test_cases ! 0) \<and>
   login_down_net 1 (Post ''http://127.0.0.1:8000/login'' (tc_payload (load_test_cases ! 1)))
     = Inl refused \<and>
   (\<exists>h rec sent.
      run_tests login_down_net ''http://127.0.0.1:8000/'' load_test_cases =
        (\<lparr>success = False, request_history = h @ [rec],
          failure = Some \<lparr>test_name = ''login_requirements'',
                          reason = ''Exception calling /login: '' @ exc_repr refused,
                          failed_record = rec\<rparr>\<rparr>, sent) \<and>
      length h = 1 \<and> status_code rec = 0 \<and> response_body rec = JStr (exc_str refused))"
proof -
  have one: "1 < length load_test_cases" by (simp add: load_test_cases_def)
  have before: "\<forall>j<1. case_ok login_down_net ''http://127.0.0.1:8000/'' j (load_test_cases ! j)"
    unfolding all_less_one by (simp add: runner_eval)
  have disp: "dispatch (tc_method (load_test_cases ! 1))
                (rstrip_slash ''http://127.0.0.1:8000/'' @ tc_endpoint (load_test_cases ! 1))
                (tc_payload (load_test_cases ! 1))
              = Inr (Post ''http://127.0.0.1:8000/login'' (tc_payload (load_test_cases ! 1)))"
    by (simp add: runner_eval)
  have down: "login_down_net 1
                (Post ''http://127.0.0.1:8000/login'' (tc_payload (load_test_cases ! 1)))
              = Inl refused"
    by (simp add: login_down_net_def)
  from transport_exception_is_recorded [OF one before disp down] one before down
  show ?thesis by (simp add: load_test_cases_def)
qed

text \<open>
  C4. When the case at position \<open>i\<close> is executed (the earlier cases having passed), its
  call returns a response, and the status code is not among the expected ones, the run
  fails with the reason "Expected ", the expected codes in decimal joined by " or ",
  " from ", the endpoint, ", got ", the actual code in decimal. For expected codes 200
  and 401, endpoint /login and status 500 the reason is
  "Expected 200 or 401 from /login, got 500".
\<close>

theorem status_mismatch_reason:
  assumes "i < length tcs"
    and "\<forall>j<i. case_ok net base j (tcs ! j)"
    and "dispatch (tc_method (tcs ! i)) (rstrip_slash base @ tc_endpoint (tcs ! i))
           (tc_payload (tcs ! i)) = Inr call"
    and "net i call = Inr resp"
    and "resp_status_code resp \<notin> set (tc_expected_status (tcs ! i))"
  shows "\<not> success (fst (run_tests net base tcs)) \<and>
         (\<exists>f. failure (fst (run_tests net base tcs)) = Some f \<and>
              reason f = ''Expected '' @ join '' or '' (map str_int (tc_expected_status (tcs ! i)))
                         @ '' from '' @ tc_endpoint (tcs ! i) @ '', got ''
                         @ str_int (resp_status_code resp) \<and>
              (tc_expected_status (tcs ! i) = [200, 401] \<and> tc_endpoint (tcs ! i) = ''/login'' \<and>
               resp_status_code resp = 500 \<longrightarrow>
                 reason f = ''Expected 200 or 401 from /login, got 500''))"
proof -
  from run_tests_reach [OF assms(1,2)] obtain h s where
    pre: "run_tests net base tcs = run_loop net base i (tcs ! i # drop (Suc i) tcs) h s"
    by blast
  have step: "run_loop net base i (tcs ! i # drop (Suc i) tcs) h s =
        (\<lparr>success = False, request_history = h @ [response_record resp],
          failure = Some
            \<lparr>test_name = tc_name (tcs ! i),
             reason = ''Expected '' @ join '' or '' (map str_int (tc_expected_status (tcs ! i)))
                      @ '' from '' @ tc_endpoint (tcs ! i) @ '', got ''
                      @ str_int (resp_status_code resp),
             failed_record = response_record resp\<rparr>\<rparr>,
         s @ [(i, call)])"
    using assms(3,4,5) by (simp add: Let_def record_and_return_response)
  have lit: "''Expected '' @ join '' or '' (map str_int [200, 401]) @ '' from '' @ ''/login''
             @ '', got '' @ str_int 500 = ''Expected 200 or 401 from /login, got 500''"
    by (simp add: str_int_def digits_200 digits_401 digits_500)
  show ?thesis
    unfolding pre step using lit by auto
qed

theorem status_mismatch_reason_witness:
  "1 < length load_test_cases \<and>
   case_ok broken_login_net ''http://127.0.0.1:8000/'' 0 (load_test_cases ! 0) \<and>
   resp_status_code (sample_response ''POST'' ''http://127.0.0.1:8000/login'' 500 None
                       ''Internal Server Error'')
     \<notin> set (tc_expected_status (load_test_cases ! 1)) \<and>
   \<not> success (fst (run_native_tests broken_login_net ''http://127.0.0.1:8000/'')) \<and>
   (\<exists>f. failure (fst (run_native_tests broken_login_net ''http://127.0.0.1:8000/'')) = Some f \<and>
        reason f = ''Expected 200 or 401 from /login, got 500'')"
proof -
  have one: "1 < length load_test_cases" by (simp add: load_test_cases_def)
  have before: "\<forall>j<1. case_ok broken_login_net ''http://127.0.0.1:8000/'' j (load_test_cases ! j)"
    unfolding all_less_one by (simp add: runner_eval)
  have disp: "dispatch (tc_method (load_test_cases ! 1))
                (rstrip_slash ''http://127.0.0.1:8000/'' @ tc_endpoint (load_test_cases ! 1))
                (tc_payload (load_test_cases ! 1))
              = Inr (Post ''http://127.0.0.1:8000/login'' (tc_payload (load_test_cases ! 1)))"
    by (simp add: runner_eval)
  have answer: "broken_login_net 1
                  (Post ''http://127.0.0.1:8000/login'' (tc_payload (load_test_cases ! 1)))
                = Inr (sample_response ''POST'' ''http://127.0.0.1:8000/login'' 500 None
                         ''Internal Server Error'')"
    by (simp add: broken_login_net_def)
  have off: "resp_status_code (sample_response ''POST'' ''http://127.0.0.1:8000/login'' 500 None
                                 ''Internal Server Error'')
             \<notin> set (tc_expected_status (load_test_cases ! 1))"
    by (simp add: sample_response_def load_test_cases_def)
  have shape: "tc_expected_status (load_test_cases ! 1) = [200, 401] \<and>
               tc_endpoint (load_test_cases ! 1) = ''/login'' \<and>
               resp_status_code (sample_response ''POST'' ''http://127.0.0.1:8000/login'' 500 None
                                   ''Internal Server Error'') = 500"
    by (simp add: sample_response_def load_test_cases_def)
  from status_mismatch_reason [OF one before disp answer off] shape one before off
  show ?thesis by (auto simp: run_native_tests_def)
qed

text \<open>
  C5, as stated, fails on a method written in lower case: the dispatch compares the
  upper-cased method, so \<open>get\<close>, which is not one of the four strings, is executed as a
  GET and the run succeeds.
\<close>

theorem unsupported_method_counterexample:
  "tc_method (lowercase_suite ! 0) \<notin> {''GET'', ''POST'', ''PUT'', ''DELETE''} \<and>
   success (fst (run_tests healthy_net ''http://127.0.0.1:8000/'' lowercase_suite)) \<and>
   snd (run_tests healthy_net ''http://127.0.0.1:8000/'' lowercase_suite)
     = [(0, Get ''http://127.0.0.1:8000/health'')]"
  by (simp add: runner_eval)

text \<open>
  C5, amended. A test case whose method, upper-cased, is outside GET, POST, PUT, DELETE
  is reported at once: when the earlier cases have passed, the run fails at that case
  with the \<open>ValueError\<close> "Unsupported HTTP method: ..." in its reason and in the body of
  the appended record, no call is issued for that case (nothing is retried) and none for
  any later case; the case is not skipped.
\<close>

theorem unsupported_method_aborts:
  assumes "i < length tcs"
    and "\<forall>j<i. case_ok net base j (tcs ! j)"
    and "upper (tc_method (tcs ! i)) \<notin> {''GET'', ''POST'', ''PUT'', ''DELETE''}"
  shows "\<exists>h rec sent.
           run_tests net base tcs =
             (\<lparr>success = False, request_history = h @ [rec],
               failure = Some
                 \<lparr>test_name = tc_name (tcs ! i),
                  reason = ''Exception calling '' @ tc_endpoint (tcs ! i) @ '': ''
                           @ exc_repr (ValueError (''Unsupported HTTP method: ''
                                                   @ tc_method (tcs ! i))),
                  failed_record = rec\<rparr>\<rparr>, sent) \<and>
           length h = i \<and> status_code rec = 0 \<and>
           response_body rec = JStr (''Unsupported HTTP method: '' @ tc_method (tcs ! i)) \<and>
           map fst sent = [0 ..< i]"
proof -
  from run_tests_reach [OF assms(1,2)] obtain h s where
    pre: "run_tests net base tcs = run_loop net base i (tcs ! i # drop (Suc i) tcs) h s"
    and len: "length h = i" and idx: "map fst s = [0 ..< i]"
    by blast
  have disp: "dispatch (tc_method (tcs ! i)) (rstrip_slash base @ tc_endpoint (tcs ! i))
                (tc_payload (tcs ! i))
              = Inl (ValueError (''Unsupported HTTP method: '' @ tc_method (tcs ! i)))"
    using assms(3) by (simp add: dispatch_def)
  have "run_loop net base i (tcs ! i # drop (Suc i) tcs) h s =
        (on_exception h (tcs ! i) (rstrip_slash base @ tc_endpoint (tcs ! i))
           (ValueError (''Unsupported HTTP method: '' @ tc_method (tcs ! i))), s)"
    by (simp add: Let_def disp)
  with pre len idx show ?thesis
    by (simp add: on_exception_eq exception_record_fields ValueError_def)
qed

theorem unsupported_method_aborts_witness:
  "1 < length patch_suite \<and>
   case_ok healthy_net ''http://127.0.0.1:8000/'' 0 (patch_suite ! 0) \<and>
   upper (tc_method (patch_suite ! 1)) \<notin> {''GET'', ''POST'', ''PUT'', ''DELETE''} \<and>
   (\<exists>h rec sent.
      run_tests healthy_net ''http://127.0.0.1:8000/'' patch_suite =
        (\<lparr>success = False, request_history = h @ [rec],
          failure = Some
            \<lparr>test_name = ''patch_user'',
             reason = ''Exception calling /user: ValueError('' @ [CHR 0x27]
                      @ ''Unsupported HTTP method: PATCH'' @ [CHR 0x27] @ '')'',
             failed_record = rec\<rparr>\<rparr>, sent) \<and>
      length h = 1 \<and> status_code rec = 0 \<and>
      response_body rec = JStr ''Unsupported HTTP method: PATCH'' \<and>
      map fst sent = [0 ..< 1])"
proof -
  have one: "1 < length patch_suite" by (simp add: patch_suite_def)
  have before: "\<forall>j<1. case_ok healthy_net ''http://127.0.0.1:8000/'' j (patch_suite ! j)"
    unfolding all_less_one by (simp add: runner_eval)
  have odd: "upper (tc_method (patch_suite ! 1)) \<notin> {''GET'', ''POST'', ''PUT'', ''DELETE''}"
    by (simp add: patch_suite_def upper_def upper_char_def)
  from unsupported_method_aborts [OF one before odd] one before odd
  show ?thesis
    by (simp add: patch_suite_def ValueError_def repr_str_def repr_char_def Let_def)
qed


section \<open>Properties of the failure log builder\<close>

lemma build_payload_metadata:
  "log_run_id (build_payload r c i t) = Some i"
  "log_timestamp (build_payload r c i t) = Some t"
  "log_commit_hash (build_payload r c i t) = Some c"
  by (simp_all add: build_payload_def Let_def)

lemma build_payload_status:
  "log_status (build_payload r c i t) = Some (if success r then ''passed'' else ''failed'')"
  by (simp add: build_payload_def Let_def empty_log_def split: option.splits)

text \<open>Whenever the builder returns, the record is the one built from the arguments.\<close>

lemma save_raw_failure_log_returns_payload:
  assumes "save_raw_failure_log os fs r c i t = Inr (p, fs')"
  shows "p = build_payload r c i t"
  using assms by (auto simp: save_raw_failure_log_def Let_def split: sum.splits)

text \<open>It returns exactly when both calls on the system do, and else raises their error.\<close>

lemma save_raw_failure_log_succeeds:
  assumes "os_makedirs os fs ''runs'' = Inr fs1"
    and "os_write_json os fs1 (''runs/'' @ i @ ''_raw.json'') (build_payload r c i t) = Inr fs2"
  shows "save_raw_failure_log os fs r c i t = Inr (build_payload r c i t, fs2)"
  using assms by (simp add: save_raw_failure_log_def Let_def)

lemma save_raw_failure_log_makedirs_raises:
  assumes "os_makedirs os fs ''runs'' = Inl e"
  shows "save_raw_failure_log os fs r c i t = Inl e"
  using assms by (simp add: save_raw_failure_log_def Let_def)

lemma save_raw_failure_log_write_raises:
  assumes "os_makedirs os fs ''runs'' = Inr fs1"
    and "os_write_json os fs1 (''runs/'' @ i @ ''_raw.json'') (build_payload r c i t) = Inl e"
  shows "save_raw_failure_log os fs r c i t = Inl e"
  using assms by (simp add: save_raw_failure_log_def Let_def)

text \<open>
  C8, as stated, fails: the builder is not free of I/O. Run on a system that keeps a
  journal, it has asked for the directory \<open>runs\<close> and written the record to
  \<open>runs/run-1_raw.json\<close>; run on a system that refuses, it raises instead of returning the
  record.
\<close>

theorem failure_log_builder_io_counterexample:
  "save_raw_failure_log journal_os [] passed_run ''abc123'' ''run-1''
     ''2025-01-01T00:00:00+00:00''
     = Inr (build_payload passed_run ''abc123'' ''run-1'' ''2025-01-01T00:00:00+00:00'',
            [Makedirs ''runs'',
             WriteJson ''runs/run-1_raw.json''
               (build_payload passed_run ''abc123'' ''run-1'' ''2025-01-01T00:00:00+00:00'')]) \<and>
   save_raw_failure_log refusing_os () passed_run ''abc123'' ''run-1''
     ''2025-01-01T00:00:00+00:00'' = Inl OSError"
  by (simp add: save_raw_failure_log_def journal_os_def refusing_os_def Let_def)

text \<open>
  C8, amended. The record the builder returns is a function of its four arguments only:
  whenever two calls with the same arguments return, on whatever systems and in whatever
  states, they return the same record, and its run id, timestamp and commit hash are the
  ones passed in. The builder is not free of I/O: each call asks the system to create
  the directory \<open>runs\<close> and to write the record to \<open>runs/{run_id}_raw.json\<close>; it returns
  the record when both succeed, and raises the system's error when either fails.
\<close>

theorem failure_log_builder_deterministic:
  "(save_raw_failure_log sysa fsx r c i t = Inr (p, fsx') \<and>
    save_raw_failure_log sysb fsy r c i t = Inr (q, fsy') \<longrightarrow>
      p = q \<and> log_run_id p = Some i \<and> log_timestamp p = Some t \<and>
      log_commit_hash p = Some c) \<and>
   (os_makedirs os fs ''runs'' = Inr fsa \<and>
    os_write_json os fsa (''runs/'' @ i @ ''_raw.json'') (build_payload r c i t) = Inr fsb \<longrightarrow>
      save_raw_failure_log os fs r c i t = Inr (build_payload r c i t, fsb)) \<and>
   (os_makedirs os fs ''runs'' = Inl e \<longrightarrow> save_raw_failure_log os fs r c i t = Inl e) \<and>
   (os_makedirs os fs ''runs'' = Inr fsa \<and>
    os_write_json os fsa (''runs/'' @ i @ ''_raw.json'') (build_payload r c i t) = Inl e \<longrightarrow>
      save_raw_failure_log os fs r c i t = Inl e)"
proof (intro conjI impI)
  assume both: "save_raw_failure_log sysa fsx r c i t = Inr (p, fsx') \<and>
                save_raw_failure_log sysb fsy r c i t = Inr (q, fsy')"
  then have p: "p = build_payload r c i t" and q: "q = build_payload r c i t"
    by (auto dest: save_raw_failure_log_returns_payload)
  show "p = q" using p q by simp
  show "log_run_id p = Some i" using p by (simp add: build_payload_metadata)
  show "log_timestamp p = Some t" using p by (simp add: build_payload_metadata)
  show "log_commit_hash p = Some c" using p by (simp add: build_payload_metadata)
next
  assume "os_makedirs os fs ''runs'' = Inr fsa \<and>
    os_write_json os fsa (''runs/'' @ i @ ''_raw.json'') (build_payload r c i t) = Inr fsb"
  then show "save_raw_failure_log os fs r c i t = Inr (build_payload r c i t, fsb)"
    by (simp add: save_raw_failure_log_succeeds)
next
  assume "os_makedirs os fs ''runs'' = Inl e"
  then show "save_raw_failure_log os fs r c i t = Inl e"
    by (rule save_raw_failure_log_makedirs_raises)
next
  assume "os_makedirs os fs ''runs'' = Inr fsa \<and>
    os_write_json os fsa (''runs/'' @ i @ ''_raw.json'') (build_payload r c i t) = Inl e"
  then show "save_raw_failure_log os fs r c i t = Inl e"
    by (simp add: save_raw_failure_log_write_raises)
qed

theorem failure_log_builder_deterministic_witness:
  "os_makedirs journal_os [] ''runs'' = Inr [Makedirs ''runs''] \<and>
   os_write_json journal_os [Makedirs ''runs''] ''runs/run-1_raw.json''
       (build_payload passed_run ''abc123'' ''run-1'' ''t0'')
     = Inr [Makedirs ''runs'',
            WriteJson ''runs/run-1_raw.json'' (build_payload passed_run ''abc123'' ''run-1'' ''t0'')] \<and>
   save_raw_failure_log journal_os [] passed_run ''abc123'' ''run-1'' ''t0''
     = Inr (build_payload passed_run ''abc123'' ''run-1'' ''t0'',
            [Makedirs ''runs'',
             WriteJson ''runs/run-1_raw.json''
               (build_payload passed_run ''abc123'' ''run-1'' ''t0'')]) \<and>
   (\<exists>q fs2. save_raw_failure_log journal_os [Makedirs ''tmp''] passed_run ''abc123'' ''run-1'' ''t0''
              = Inr (q, fs2) \<and>
            q = build_payload passed_run ''abc123'' ''run-1'' ''t0'' \<and>
            log_run_id q = Some ''run-1'' \<and> log_timestamp q = Some ''t0'' \<and>
            log_commit_hash q = Some ''abc123'') \<and>
   os_makedirs refusing_os () ''runs'' = Inl OSError \<and>
   save_raw_failure_log refusing_os () passed_run ''abc123'' ''run-1'' ''t0'' = Inl OSError"
proof -
  let ?p = "build_payload passed_run ''abc123'' ''run-1'' ''t0''"
  let ?j = "[Makedirs ''runs'', WriteJson ''runs/run-1_raw.json'' ?p]"
  let ?k = "[Makedirs ''tmp'', Makedirs ''runs'', WriteJson ''runs/run-1_raw.json'' ?p]"
  have mk: "os_makedirs journal_os [] ''runs'' = Inr [Makedirs ''runs'']"
    by (simp add: journal_os_def)
  have wr: "os_write_json journal_os [Makedirs ''runs''] (''runs/'' @ ''run-1'' @ ''_raw.json'') ?p
            = Inr ?j"
    by (simp add: journal_os_def)
  note first = failure_log_builder_deterministic
    [where os = journal_os and fs = "[]" and fsa = "[Makedirs ''runs'']" and fsb = ?j
       and r = passed_run and c = "''abc123''" and i = "''run-1''" and t = "''t0''",
     THEN conjunct2, THEN conjunct1, THEN mp, OF conjI, OF mk wr]
  have mk2: "os_makedirs journal_os [Makedirs ''tmp''] ''runs''
             = Inr [Makedirs ''tmp'', Makedirs ''runs'']"
    by (simp add: journal_os_def)
  have wr2: "os_write_json journal_os [Makedirs ''tmp'', Makedirs ''runs'']
               (''runs/'' @ ''run-1'' @ ''_raw.json'') ?p = Inr ?k"
    by (simp add: journal_os_def)
  note second = failure_log_builder_deterministic
    [where os = journal_os and fs = "[Makedirs ''tmp'']"
       and fsa = "[Makedirs ''tmp'', Makedirs ''runs'']" and fsb = ?k
       and r = passed_run and c = "''abc123''" and i = "''run-1''" and t = "''t0''",
     THEN conjunct2, THEN conjunct1, THEN mp, OF conjI, OF mk2 wr2]
  note same = failure_log_builder_deterministic
    [where sysa = journal_os and fsx = "[]" and p = ?p and fsx' = ?j
       and sysb = journal_os and fsy = "[Makedirs ''tmp'']" and q = ?p and fsy' = ?k
       and r = passed_run and c = "''abc123''" and i = "''run-1''" and t = "''t0''",
     THEN conjunct1, THEN mp, OF conjI, OF first second]
  have no: "os_makedirs refusing_os () ''runs'' = Inl OSError"
    by (simp add: refusing_os_def)
  note refused = failure_log_builder_deterministic
    [where os = refusing_os and fs = "()" and e = OSError
       and r = passed_run and c = "''abc123''" and i = "''run-1''" and t = "''t0''",
     THEN conjunct2, THEN conjunct2, THEN conjunct1, THEN mp, OF no]
  from mk wr first second same no refused show ?thesis by simp
qed


section \<open>Properties of the diagnosis stage\<close>

text \<open>The category the rule-based diagnosis gives to a log that is not a passed one.\<close>

lemma generate_mock_diagnosis_category:
  assumes "log_status log \<noteq> Some ''passed''"
    and "log_failure_reason log = Some why"
  shows "FailureCategory (generate_mock_diagnosis log) =
           (if contains ''status_code'' (lower why) \<or> contains ''401'' why \<or> contains ''404'' why
              then ''Product Bug''
            else if contains ''json'' (lower why) then ''Product Bug''
            else if contains ''exception'' (lower why) \<or> contains ''error'' (lower why)
              then ''Environment Issue''
            else ''Automation Flaw'')"
  using assms
  by (cases "log_status log") (simp_all add: generate_mock_diagnosis_def Let_def)

text \<open>The pipeline's diagnosis stage gives every log that is not a passed one the same
  category.\<close>

lemma run_rag_diagnosis_category:
  assumes "log_status raw_log \<noteq> Some ''passed''"
    and "run_rag_diagnosis env dumps raw_log commit = Inr (d, calls)"
  shows "FailureCategory d = ''Product Bug''"
  using assms
  by (auto simp: run_rag_diagnosis_def rag_llm_generate_def Let_def
      split: if_splits option.splits prod.splits)

lemma refused_log_reason:
  "log_status refused_log = Some ''failed'' \<and>
   log_failure_reason refused_log =
     Some ''Exception calling /login: ConnectError('[Errno 111] Connection refused')''"
  by (simp add: refused_log_def build_payload_def empty_log_def runner_eval)

text \<open>
  C2. The log of a run whose login call was refused has the failure reason
  "Exception calling /login: ConnectError(...)": it mentions "exception" and none of
  the substrings matched earlier. The rule-based diagnosis classifies it as
  "Environment Issue"; the diagnosis stage of the pipeline, \<open>run_rag_diagnosis\<close>, run
  without Redis, returns "Product Bug" for it.
\<close>

theorem diagnosis_stage_ignores_heuristics:
  "contains ''exception'' (lower (the (log_failure_reason refused_log))) \<and>
   \<not> contains ''status_code'' (lower (the (log_failure_reason refused_log))) \<and>
   \<not> contains ''401'' (the (log_failure_reason refused_log)) \<and>
   \<not> contains ''404'' (the (log_failure_reason refused_log)) \<and>
   \<not> contains ''json'' (lower (the (log_failure_reason refused_log))) \<and>
   FailureCategory (generate_mock_diagnosis refused_log) = ''Environment Issue'' \<and>
   FailureCategory (client_llm_generate None (Some refused_log)) = ''Environment Issue'' \<and>
   (case run_rag_diagnosis no_redis_env dumps refused_log ''abc123'' of
      Inr (d, calls) \<Rightarrow> FailureCategory d = ''Product Bug''
    | Inl e \<Rightarrow> False)"
proof -
  have why: "log_failure_reason refused_log =
     Some ''Exception calling /login: ConnectError('[Errno 111] Connection refused')''"
    and st: "log_status refused_log = Some ''failed''"
    using refused_log_reason by simp_all
  have low: "lower ''Exception calling /login: ConnectError('[Errno 111] Connection refused')''
             = ''exception calling /login: connecterror('[errno 111] connection refused')''"
    by (simp add: lower_def lower_char_def)
  have c1: "contains ''exception'' (lower (the (log_failure_reason refused_log)))"
    unfolding why option.sel low by simp
  have c2: "\<not> contains ''status_code'' (lower (the (log_failure_reason refused_log)))"
    unfolding why option.sel low by simp
  have c3: "\<not> contains ''401'' (the (log_failure_reason refused_log))"
    unfolding why option.sel by simp
  have c4: "\<not> contains ''404'' (the (log_failure_reason refused_log))"
    unfolding why option.sel by simp
  have c5: "\<not> contains ''json'' (lower (the (log_failure_reason refused_log)))"
    unfolding why option.sel low by simp
  have ne: "log_status refused_log \<noteq> Some ''passed''" using st by simp
  have mock: "FailureCategory (generate_mock_diagnosis refused_log) = ''Environment Issue''"
    using generate_mock_diagnosis_category [OF ne why] c1 c2 c3 c4 c5
    by (simp add: why)
  have client: "FailureCategory (client_llm_generate None (Some refused_log)) = ''Environment Issue''"
    using mock by (simp add: client_llm_generate_def)
  have rag: "run_rag_diagnosis no_redis_env dumps refused_log ''abc123'' =
             Inr (rag_llm_generate (Some refused_log) (Some \<lparr>ctx_code = [], ctx_docs = []\<rparr>), [])"
    using ne by (simp add: run_rag_diagnosis_def no_redis_env_def VectorDBClient_def Let_def)
  have cat: "FailureCategory (rag_llm_generate (Some refused_log)
               (Some \<lparr>ctx_code = [], ctx_docs = []\<rparr>)) = ''Product Bug''"
    by (simp add: rag_llm_generate_def Let_def)
  from c1 c2 c3 c4 c5 mock client show ?thesis
    unfolding rag by (simp add: cat)
qed

text \<open>
  C6, as stated, fails twice: called without a client, the retrieval makes no query at
  all; and with an enabled client it queries the index \<open>doc_index\<close> with no filter, so
  the documentation query is not scoped to the commit.
\<close>

theorem retrieve_context_counterexample:
  "snd (retrieve_context True (\<lambda>l. ''{}'') refused_log ''abc123'' None None) = [] \<and>
   snd (retrieve_context True (\<lambda>l. ''{}'') refused_log ''abc123'' (Some live_vdb) None) =
     [QueryVector ''code_index'' ''{}'' [''filepath'', ''content'', ''commit_hash'']
        (Some [(''commit_hash'', ''abc123'')]) 5,
      QueryVector ''doc_index'' ''{}'' [''title'', ''content''] None 5]"
  by (simp add: retrieve_context_def live_vdb_def Let_def)

text \<open>
  C6, amended. Given a failing log, a commit identifier and a client, the retrieval
  queries the client exactly twice, first for code and then for documentation, both
  with the serialised log as query text and with the top-K passed in (5 when omitted).
  The code query is scoped to the commit: on the vector path by the filter
  \<open>commit_hash\<close>, on the legacy path by the index name \<open>code_index:commit\<close>; on the legacy
  path the documentation index is \<open>doc_index:commit\<close> as well. Without a client no query
  is made. In every case the returned dictionary has lists for code and docs, both
  empty.
\<close>

theorem retrieve_context_two_queries:
  "(case vdb of
      None \<Rightarrow> snd (retrieve_context avail dumps log commit vdb top_k_arg) = []
    | Some v \<Rightarrow>
        (let k = (case top_k_arg of None \<Rightarrow> 5 | Some n \<Rightarrow> n) in
         if avail \<and> vdb_enabled v then
           (\<exists>doc_filter.
              snd (retrieve_context avail dumps log commit vdb top_k_arg) =
                [QueryVector ''code_index'' (dumps log)
                   [''filepath'', ''content'', ''commit_hash'']
                   (Some [(''commit_hash'', commit)]) k,
                 QueryVector ''doc_index'' (dumps log) [''title'', ''content''] doc_filter k])
         else
           snd (retrieve_context avail dumps log commit vdb top_k_arg) =
             [Search (''code_index:'' @ commit) (dumps log) k,
              Search (''doc_index:'' @ commit) (dumps log) k])) \<and>
   fst (retrieve_context avail dumps log commit vdb top_k_arg) = \<lparr>ctx_code = [], ctx_docs = []\<rparr>"
  by (cases vdb)
    (auto simp: retrieve_context_def Let_def query_vector_def search_def index_name_def
      split: option.splits)


section \<open>Properties of the Skyflow client\<close>

lemma tokenize_attempt_original:
  assumes "fst (tokenize_attempt c post rec) = Inr r"
  shows "tr_original r = rec \<and> (\<not> tr_enabled r \<longrightarrow> tr_tokenized r = rec)"
  using assms
  by (auto simp: tokenize_attempt_def fallback_result_def Let_def
      split: sum.splits if_splits)

lemma tokenize_attempt_calls:
  "snd (tokenize_attempt c post rec) =
     [(tokenize_endpoint c, skyflow_headers c,
       JObj [(''records'', JArr [JObj [(''fields'', rec)]])])]"
  by (simp add: tokenize_attempt_def Let_def split: sum.splits)

lemma tokenize_record_returns:
  "\<exists>r. fst (tokenize_record c post rec) = Inr r \<and> tr_original r = rec \<and>
       (\<not> tr_enabled r \<longrightarrow> tr_tokenized r = rec)"
proof (cases "sf_enabled c")
  case False
  then show ?thesis by (simp add: tokenize_record_def fallback_result_def)
next
  case True
  show ?thesis
  proof (cases "fst (tokenize_attempt c post rec)")
    case (Inl e)
    then have "fst (tokenize_record c post rec) = Inr (fallback_result rec)"
      using True by (cases "tokenize_attempt c post rec") (simp add: tokenize_record_def)
    then show ?thesis by (simp add: fallback_result_def)
  next
    case (Inr r)
    then have "fst (tokenize_record c post rec) = Inr r"
      using True by (cases "tokenize_attempt c post rec") (simp add: tokenize_record_def)
    with tokenize_attempt_original [OF Inr] show ?thesis by simp
  qed
qed

lemma tokenize_record_on_exception:
  assumes "sf_enabled c" and "fst (tokenize_attempt c post rec) = Inl e"
  shows "fst (tokenize_record c post rec) = Inr (fallback_result rec)"
  using assms by (cases "tokenize_attempt c post rec") (simp add: tokenize_record_def)

lemma SkyflowClient_unconfigured:
  assumes "\<not> str_truthy (str_or vault_id env_vault_id) \<or> \<not> str_truthy (str_or api_token env_token)"
  shows "\<not> sf_enabled (SkyflowClient vault_id api_token base_url enabled env_vault_id
                          env_token env_base)"
  using assms by (auto simp: SkyflowClient_def Let_def split: option.splits)

text \<open>
  C7. For every record: a client built without a vault id or without an API token is
  not enabled; a client that is not enabled posts nothing and returns
  \<open>enabled = False\<close> with the original record as the tokenized value; and
  \<open>tokenize_record\<close> always returns, no exception leaves it: when the post raises, when
  the response is not a 2xx, or when anything else in the attempt raises, the result is
  again \<open>enabled = False\<close> with the original record unchanged.
\<close>

theorem tokenize_record_fail_soft:
  "(\<not> str_truthy (str_or vault_id env_vault_id) \<or> \<not> str_truthy (str_or api_token env_token) \<longrightarrow>
      \<not> sf_enabled (SkyflowClient vault_id api_token base_url enabled env_vault_id
                       env_token env_base)) \<and>
   (\<not> sf_enabled c \<longrightarrow>
      tokenize_record c post rec =
        (Inr \<lparr>tr_enabled = False, tr_original = rec, tr_tokenized = rec\<rparr>, [])) \<and>
   (\<exists>r. fst (tokenize_record c post rec) = Inr r \<and> tr_original r = rec \<and>
        (\<not> tr_enabled r \<longrightarrow> tr_tokenized r = rec)) \<and>
   (sf_enabled c \<longrightarrow>
      (\<forall>e. fst (tokenize_attempt c post rec) = Inl e \<longrightarrow>
           fst (tokenize_record c post rec) =
             Inr \<lparr>tr_enabled = False, tr_original = rec, tr_tokenized = rec\<rparr>) \<and>
      (\<forall>exc. post (tokenize_endpoint c) (skyflow_headers c)
                (JObj [(''records'', JArr [JObj [(''fields'', rec)]])]) = Inl exc \<longrightarrow>
           fst (tokenize_record c post rec) =
             Inr \<lparr>tr_enabled = False, tr_original = rec, tr_tokenized = rec\<rparr>) \<and>
      (\<forall>resp. post (tokenize_endpoint c) (skyflow_headers c)
                 (JObj [(''records'', JArr [JObj [(''fields'', rec)]])]) = Inr resp \<and>
              sr_status_code resp div 100 \<noteq> 2 \<longrightarrow>
           fst (tokenize_record c post rec) =
             Inr \<lparr>tr_enabled = False, tr_original = rec, tr_tokenized = rec\<rparr>))"
proof (intro conjI impI allI)
  assume "\<not> str_truthy (str_or vault_id env_vault_id) \<or> \<not> str_truthy (str_or api_token env_token)"
  then show "\<not> sf_enabled (SkyflowClient vault_id api_token base_url enabled env_vault_id
                             env_token env_base)"
    by (rule SkyflowClient_unconfigured)
next
  assume "\<not> sf_enabled c"
  then show "tokenize_record c post rec =
               (Inr \<lparr>tr_enabled = False, tr_original = rec, tr_tokenized = rec\<rparr>, [])"
    by (simp add: tokenize_record_def fallback_result_def)
next
  show "\<exists>r. fst (tokenize_record c post rec) = Inr r \<and> tr_original r = rec \<and>
            (\<not> tr_enabled r \<longrightarrow> tr_tokenized r = rec)"
    by (rule tokenize_record_returns)
next
  fix e
  assume "sf_enabled c" and "fst (tokenize_attempt c post rec) = Inl e"
  then show "fst (tokenize_record c post rec) =
               Inr \<lparr>tr_enabled = False, tr_original = rec, tr_tokenized = rec\<rparr>"
    using tokenize_record_on_exception by (simp add: fallback_result_def)
next
  fix exc
  assume en: "sf_enabled c"
    and "post (tokenize_endpoint c) (skyflow_headers c)
           (JObj [(''records'', JArr [JObj [(''fields'', rec)]])]) = Inl exc"
  then have "fst (tokenize_attempt c post rec) = Inl (Raised exc)"
    by (simp add: tokenize_attempt_def Let_def)
  from tokenize_record_on_exception [OF en this]
  show "fst (tokenize_record c post rec) =
          Inr \<lparr>tr_enabled = False, tr_original = rec, tr_tokenized = rec\<rparr>"
    by (simp add: fallback_result_def)
next
  fix resp
  assume en: "sf_enabled c"
    and "post (tokenize_endpoint c) (skyflow_headers c)
           (JObj [(''records'', JArr [JObj [(''fields'', rec)]])]) = Inr resp \<and>
         sr_status_code resp div 100 \<noteq> 2"
  then have "fst (tokenize_attempt c post rec) = Inr (fallback_result rec)"
    by (simp add: tokenize_attempt_def Let_def)
  then show "fst (tokenize_record c post rec) =
          Inr \<lparr>tr_enabled = False, tr_original = rec, tr_tokenized = rec\<rparr>"
    using en
    by (cases "tokenize_attempt c post rec") (simp add: tokenize_record_def fallback_result_def)
qed

theorem tokenize_record_fail_soft_witness:
  "\<not> str_truthy (str_or None None) \<and>
   \<not> sf_enabled (SkyflowClient None (Some ''token'') None None None None None) \<and>
   tokenize_record (SkyflowClient None (Some ''token'') None None None None None)
     tokenizing_post ssn_record =
     (Inr \<lparr>tr_enabled = False, tr_original = ssn_record, tr_tokenized = ssn_record\<rparr>, []) \<and>
   sf_enabled (SkyflowClient (Some ''vault'') (Some ''token'') None None None None None) \<and>
   sr_status_code \<lparr>sr_status_code = 503, sr_text = ''Service Unavailable'',
       sr_json = Inl \<lparr>exc_str = ''Expecting value'', exc_repr = ''JSONDecodeError()''\<rparr>\<rparr>
     div 100 \<noteq> 2 \<and>
   fst (tokenize_record (SkyflowClient (Some ''vault'') (Some ''token'') None None None None None)
          unavailable_post ssn_record) =
     Inr \<lparr>tr_enabled = False, tr_original = ssn_record, tr_tokenized = ssn_record\<rparr>"
proof -
  let ?off = "SkyflowClient None (Some ''token'') None None None None None"
  let ?on = "SkyflowClient (Some ''vault'') (Some ''token'') None None None None None"
  let ?resp = "\<lparr>sr_status_code = 503, sr_text = ''Service Unavailable'',
       sr_json = Inl \<lparr>exc_str = ''Expecting value'', exc_repr = ''JSONDecodeError()''\<rparr>\<rparr>"
  have missing: "\<not> str_truthy (str_or None None) \<or> \<not> str_truthy (str_or (Some ''token'') None)"
    by (simp add: str_truthy_def str_or_def)
  note off = tokenize_record_fail_soft
    [of None None "Some ''token''" None None None None ?off tokenizing_post ssn_record,
     THEN conjunct1, THEN mp, OF missing]
  note quiet = tokenize_record_fail_soft
    [of None None "Some ''token''" None None None None ?off tokenizing_post ssn_record,
     THEN conjunct2, THEN conjunct1, THEN mp, OF off]
  have on: "sf_enabled ?on"
    by (simp add: SkyflowClient_def str_or_def str_truthy_def Let_def)
  have answer: "unavailable_post (tokenize_endpoint ?on) (skyflow_headers ?on)
                  (JObj [(''records'', JArr [JObj [(''fields'', ssn_record)]])]) = Inr ?resp \<and>
                sr_status_code ?resp div 100 \<noteq> 2"
    by (simp add: unavailable_post_def)
  note soft = tokenize_record_fail_soft
    [of None None "Some ''token''" None None None None ?on unavailable_post ssn_record,
     THEN conjunct2, THEN conjunct2, THEN conjunct2, THEN mp, OF on,
     THEN conjunct2, THEN conjunct2, THEN spec, of ?resp, THEN mp, OF answer]
  have none: "\<not> str_truthy (str_or None None)" by (simp add: str_truthy_def str_or_def)
  from none off quiet on answer soft show ?thesis by simp
qed


section \<open>Properties of the key-value store\<close>

subsection \<open>The in-memory mode\<close>

lemma vp_set_memory:
  assumes "use_memory r"
  shows "vp_set ops r key val = Inr (r\<lparr>store := AList.update key val (store r)\<rparr>)"
  using assms by (simp add: vp_set_def)

lemma vp_get_memory:
  assumes "use_memory r"
  shows "vp_get ops r key = Inr (map_of (store r) key, r)"
  using assms by (simp add: vp_get_def)

lemma vp_keys_memory:
  assumes "use_memory r"
  shows "vp_keys ops r pattern = Inr (memory_keys (store r) pattern, r)"
  using assms by (simp add: vp_keys_def)

lemma memory_keys_run:
  "memory_keys st ''run:*'' = filter (prefix ''run:'') (map fst st)"
  by (simp add: memory_keys_def)

lemma history_loop_memory:
  assumes "use_memory r"
  shows "history_loop ops loads r ks results =
           (results @ concat (map (entry_of loads (store r)) ks), r)"
proof (induction ks arbitrary: results)
  case Nil
  show ?case by simp
next
  case (Cons key ks)
  show ?case
    by (simp add: vp_get_memory [OF assms] Cons.IH entry_of_def
        split: option.splits sum.splits)
qed

lemma list_run_history_memory:
  assumes "use_memory r"
  shows "list_run_history ops loads r =
           Inr (concat (map (entry_of loads (store r)) (memory_keys (store r) ''run:*'')), r)"
  by (simp add: list_run_history_def vp_keys_memory [OF assms] history_loop_memory [OF assms])

lemma save_run_result_memory:
  assumes "use_memory r" and "dumps payload = Inr encoded"
  shows "save_run_result ops dumps r run_id payload =
           Inr (r\<lparr>store := AList.update (''run:'' @ run_id) encoded (store r)\<rparr>)"
  using assms by (simp add: save_run_result_def Let_def vp_set_memory)

lemma VerifyPulseRedis_unconfigured:
  assumes "(case url_arg of Some s \<Rightarrow> s
            | None \<Rightarrow> (case config_url of Inr s \<Rightarrow> s | Inl exc \<Rightarrow> [])) = u"
    and "u = [] \<or> list_all is_space u"
  shows "VerifyPulseRedis url_arg config_url connect =
           \<lparr>use_memory = True, store = [], client = None\<rparr>"
  using assms by (auto simp: VerifyPulseRedis_def Let_def)

text \<open>
  C9. When no backend is configured (the URL argument, or else the configured
  \<open>REDIS_URL\<close>, is empty or blank, or the configuration does not load), the instance
  works on the in-memory map: \<open>list_run_history\<close> returns the empty list before any
  write; and on any instance in memory mode, after \<open>save_run_result run_id payload\<close> the
  history returned by \<open>list_run_history\<close> contains that payload. The JSON codec is a
  parameter: \<open>dumps\<close> serialises the payload to a non-empty text that \<open>loads\<close> reads back.
\<close>

theorem in_memory_run_history:
  "((case url_arg of Some s \<Rightarrow> s
     | None \<Rightarrow> (case config_url of Inr s \<Rightarrow> s | Inl exc \<Rightarrow> [])) = u \<and>
    (u = [] \<or> list_all is_space u) \<longrightarrow>
      use_memory (VerifyPulseRedis url_arg config_url connect) \<and>
      list_run_history ops loads (VerifyPulseRedis url_arg config_url connect) =
        Inr ([], VerifyPulseRedis url_arg config_url connect)) \<and>
   (use_memory r \<and> dumps payload = Inr encoded \<and> encoded \<noteq> [] \<and> loads encoded = Inr payload \<longrightarrow>
      (\<exists>r' history.
         save_run_result ops dumps r run_id payload = Inr r' \<and> use_memory r' \<and>
         list_run_history ops loads r' = Inr (history, r') \<and>
         payload \<in> set history))"
proof (intro conjI impI)
  assume h: "(case url_arg of Some s \<Rightarrow> s
     | None \<Rightarrow> (case config_url of Inr s \<Rightarrow> s | Inl exc \<Rightarrow> [])) = u \<and>
    (u = [] \<or> list_all is_space u)"
  then have init: "VerifyPulseRedis url_arg config_url connect =
                   (\<lparr>use_memory = True, store = [], client = None\<rparr> :: 'a verify_pulse_redis)"
    using VerifyPulseRedis_unconfigured by blast
  show "use_memory (VerifyPulseRedis url_arg config_url connect)"
    unfolding init by simp
  have mem: "use_memory (\<lparr>use_memory = True, store = [], client = None\<rparr> :: 'a verify_pulse_redis)"
    by simp
  show "list_run_history ops loads (VerifyPulseRedis url_arg config_url connect) =
          Inr ([], VerifyPulseRedis url_arg config_url connect)"
    unfolding init list_run_history_memory [OF mem] by (simp add: memory_keys_run)
next
  assume h: "use_memory r \<and> dumps payload = Inr encoded \<and> encoded \<noteq> [] \<and> loads encoded = Inr payload"
  let ?key = "''run:'' @ run_id"
  let ?r' = "r\<lparr>store := AList.update ?key encoded (store r)\<rparr>"
  from h have saved: "save_run_result ops dumps r run_id payload = Inr ?r'"
    by (simp add: save_run_result_memory)
  have mem': "use_memory ?r'" using h by simp
  have listed: "list_run_history ops loads ?r' =
      Inr (concat (map (entry_of loads (store ?r')) (memory_keys (store ?r') ''run:*'')), ?r')"
    by (rule list_run_history_memory [OF mem'])
  have key_in: "?key \<in> set (memory_keys (store ?r') ''run:*'')"
    by (simp add: memory_keys_run dom_update)
  have entry: "entry_of loads (store ?r') ?key = [payload]"
    using h by (simp add: entry_of_def update_conv')
  have "payload \<in> set (concat (map (entry_of loads (store ?r')) (memory_keys (store ?r') ''run:*'')))"
    using key_in entry by (auto intro!: bexI [of _ ?key])
  with saved mem' listed
  show "\<exists>r' history.
         save_run_result ops dumps r run_id payload = Inr r' \<and> use_memory r' \<and>
         list_run_history ops loads r' = Inr (history, r') \<and>
         payload \<in> set history"
    by blast
qed

theorem in_memory_run_history_witness:
  "use_memory (VerifyPulseRedis None (Inr []) (\<lambda>u. Inl connection_lost) :: unit verify_pulse_redis) \<and>
   list_run_history failing_ops sample_loads
       (VerifyPulseRedis None (Inr []) (\<lambda>u. Inl connection_lost)) =
     Inr ([], VerifyPulseRedis None (Inr []) (\<lambda>u. Inl connection_lost)) \<and>
   sample_dumps sample_payload = Inr ''{\"collection_id\": \"c-1\", \"passed\": true}'' \<and>
   sample_loads ''{\"collection_id\": \"c-1\", \"passed\": true}'' = Inr sample_payload \<and>
   (\<exists>r' history.
      save_run_result failing_ops sample_dumps
          (VerifyPulseRedis None (Inr []) (\<lambda>u. Inl connection_lost)) ''c-1'' sample_payload
        = Inr r' \<and>
      use_memory r' \<and>
      list_run_history failing_ops sample_loads r' = Inr (history, r') \<and>
      sample_payload \<in> set history)"
proof -
  let ?r0 = "VerifyPulseRedis None (Inr []) (\<lambda>u. Inl connection_lost) :: unit verify_pulse_redis"
  let ?encoded = "''{\"collection_id\": \"c-1\", \"passed\": true}''"
  have blank: "(case None of Some s \<Rightarrow> s
                | None \<Rightarrow> (case (Inr [] :: py_exception + string) of
                             Inr s \<Rightarrow> s | Inl exc \<Rightarrow> [])) = [] \<and>
               ([] = [] \<or> list_all is_space [])"
    by simp
  note start = in_memory_run_history
    [where url_arg = None and config_url = "Inr []" and u = "[]"
       and connect = "\<lambda>u. Inl connection_lost" and ops = failing_ops and loads = sample_loads,
     THEN conjunct1, THEN mp, OF blank]
  have mem: "use_memory ?r0" using start by simp
  have d: "sample_dumps sample_payload = Inr ?encoded" by (simp add: sample_dumps_def)
  have l: "sample_loads ?encoded = Inr sample_payload" by (simp add: sample_loads_def)
  have pre: "use_memory ?r0 \<and> sample_dumps sample_payload = Inr ?encoded \<and> ?encoded \<noteq> [] \<and>
             sample_loads ?encoded = Inr sample_payload"
    using mem d l by simp
  note after = in_memory_run_history
    [where r = ?r0 and dumps = sample_dumps and payload = sample_payload and encoded = ?encoded
       and loads = sample_loads and ops = failing_ops and run_id = "''c-1''",
     THEN conjunct2, THEN mp, OF pre]
  from start d l after show ?thesis by simp
qed

subsection \<open>Falling back when the backend raises\<close>

lemma vp_set_returns: "\<exists>r'. vp_set ops r key val = Inr r'"
  by (simp add: vp_set_def split: option.splits sum.splits)

lemma vp_get_returns: "\<exists>x. vp_get ops r key = Inr x"
  by (simp add: vp_get_def split: option.splits sum.splits)

lemma vp_keys_returns: "\<exists>x. vp_keys ops r pattern = Inr x"
  by (simp add: vp_keys_def split: option.splits sum.splits)

lemma store_requirement_eq: "store_requirement ops r key val = vp_set ops r key val"
  by (simp add: store_requirement_def vp_set_def)

lemma get_requirement_eq: "get_requirement ops r key = vp_get ops r key"
  by (simp add: get_requirement_def vp_get_def)

lemma vp_set_sticky:
  assumes "use_memory r" and "vp_set ops r key val = Inr r'"
  shows "use_memory r'"
  using assms by (auto simp: vp_set_def)

lemma vp_get_sticky:
  assumes "use_memory r" and "vp_get ops r key = Inr (x, r')"
  shows "use_memory r'"
  using assms by (auto simp: vp_get_def)

lemma vp_keys_sticky:
  assumes "use_memory r" and "vp_keys ops r pattern = Inr (ks, r')"
  shows "use_memory r'"
  using assms by (auto simp: vp_keys_def)

lemma vp_set_backend_raises:
  assumes "\<not> use_memory r" and "client r = Some b" and "backend_set ops b key val = Inl exc"
  shows "vp_set ops r key val =
           Inr (r\<lparr>use_memory := True, store := AList.update key val (store r)\<rparr>)"
  using assms by (simp add: vp_set_def)

lemma vp_get_backend_raises:
  assumes "\<not> use_memory r" and "client r = Some b" and "backend_get ops b key = Inl exc"
  shows "vp_get ops r key = Inr (map_of (store r) key, r\<lparr>use_memory := True\<rparr>)"
  using assms by (simp add: vp_get_def)

lemma vp_keys_backend_raises:
  assumes "\<not> use_memory r" and "client r = Some b" and "backend_keys ops b pattern = Inl exc"
  shows "vp_keys ops r pattern = Inr (memory_keys (store r) pattern, r\<lparr>use_memory := True\<rparr>)"
  using assms by (simp add: vp_keys_def)

lemma set_then_get_after_failure:
  assumes "\<not> use_memory r" and "client r = Some b" and "backend_set ops b key val = Inl exc"
  shows "\<exists>r'. vp_set ops r key val = Inr r' \<and> use_memory r' \<and>
              map_of (store r') key = Some val \<and> vp_get ops r' key = Inr (Some val, r')"
proof -
  let ?r' = "r\<lparr>use_memory := True, store := AList.update key val (store r)\<rparr>"
  have "vp_set ops r key val = Inr ?r'" using assms by (rule vp_set_backend_raises)
  moreover have "use_memory ?r'" by simp
  moreover have "map_of (store ?r') key = Some val" by (simp add: update_conv')
  moreover have "vp_get ops ?r' key = Inr (Some val, ?r')"
    by (simp add: vp_get_def update_conv')
  ultimately show ?thesis by blast
qed

lemma call_method_returns:
  "\<exists>r'. call_method ops r c = Inr r' \<and> (use_memory r \<longrightarrow> use_memory r')"
proof (cases c)
  case (CallSet k v)
  then show ?thesis
    using vp_set_returns [of ops r k v] vp_set_sticky [of r ops k v]
    by (auto simp: call_method_def)
next
  case (CallGet k)
  then show ?thesis
    using vp_get_returns [of ops r k] vp_get_sticky [of r ops k]
    by (auto simp: call_method_def)
next
  case (CallKeys p)
  then show ?thesis
    using vp_keys_returns [of ops r p] vp_keys_sticky [of r ops p]
    by (auto simp: call_method_def)
next
  case (CallStoreRequirement k v)
  then show ?thesis
    using vp_set_returns [of ops r k v] vp_set_sticky [of r ops k v]
    by (auto simp: call_method_def store_requirement_eq)
next
  case (CallGetRequirement k)
  then show ?thesis
    using vp_get_returns [of ops r k] vp_get_sticky [of r ops k]
    by (auto simp: call_method_def get_requirement_eq)
qed

lemma call_all_returns:
  "\<exists>r'. call_all ops r cs = Inr r' \<and> (use_memory r \<longrightarrow> use_memory r')"
proof (induction cs arbitrary: r)
  case Nil
  show ?case by simp
next
  case (Cons c cs)
  from call_method_returns [of ops r c] obtain r1 where
    one: "call_method ops r c = Inr r1" and keep: "use_memory r \<longrightarrow> use_memory r1"
    by blast
  from Cons.IH [of r1] obtain r2 where
    rest: "call_all ops r1 cs = Inr r2" and keep': "use_memory r1 \<longrightarrow> use_memory r2"
    by blast
  from one rest keep keep' show ?case by simp
qed

text \<open>
  C10. None of \<open>set\<close>, \<open>get\<close>, \<open>keys\<close>, \<open>store_requirement\<close>, \<open>get_requirement\<close> lets an
  exception out: each returns, and so does every sequence of such calls. The fallback is
  sticky: an instance in memory mode stays in memory mode through every one of them,
  and through every sequence of them. When the backend raises during a call, the
  instance switches to the in-memory store and the call is completed there: a \<open>set\<close>
  (or \<open>store_requirement\<close>) whose backend write failed has recorded the value, and the
  next \<open>get\<close> returns it; a \<open>get\<close> or \<open>keys\<close> whose backend read failed answers from the
  in-memory store.
\<close>

theorem store_fallback_is_sticky:
  "((\<exists>r'. vp_set ops r key val = Inr r') \<and>
    (\<exists>x. vp_get ops r key = Inr x) \<and>
    (\<exists>x. vp_keys ops r pattern = Inr x) \<and>
    (\<exists>r'. store_requirement ops r key val = Inr r') \<and>
    (\<exists>x. get_requirement ops r key = Inr x) \<and>
    (\<exists>r'. call_all ops r calls = Inr r' \<and> (use_memory r \<longrightarrow> use_memory r'))) \<and>
   (use_memory r \<longrightarrow>
      (\<forall>r'. vp_set ops r key val = Inr r' \<longrightarrow> use_memory r') \<and>
      (\<forall>x r'. vp_get ops r key = Inr (x, r') \<longrightarrow> use_memory r') \<and>
      (\<forall>ks r'. vp_keys ops r pattern = Inr (ks, r') \<longrightarrow> use_memory r') \<and>
      (\<forall>r'. store_requirement ops r key val = Inr r' \<longrightarrow> use_memory r') \<and>
      (\<forall>x r'. get_requirement ops r key = Inr (x, r') \<longrightarrow> use_memory r')) \<and>
   (\<not> use_memory r \<and> client r = Some b \<and> backend_set ops b key val = Inl exc \<longrightarrow>
      (\<exists>r'. vp_set ops r key val = Inr r' \<and> use_memory r' \<and>
            map_of (store r') key = Some val \<and> vp_get ops r' key = Inr (Some val, r')) \<and>
      (\<exists>r'. store_requirement ops r key val = Inr r' \<and> use_memory r' \<and>
            get_requirement ops r' key = Inr (Some val, r'))) \<and>
   (\<not> use_memory r \<and> client r = Some b \<and> backend_get ops b key = Inl exc \<longrightarrow>
      vp_get ops r key = Inr (map_of (store r) key, r\<lparr>use_memory := True\<rparr>) \<and>
      get_requirement ops r key = Inr (map_of (store r) key, r\<lparr>use_memory := True\<rparr>)) \<and>
   (\<not> use_memory r \<and> client r = Some b \<and> backend_keys ops b pattern = Inl exc \<longrightarrow>
      vp_keys ops r pattern = Inr (memory_keys (store r) pattern, r\<lparr>use_memory := True\<rparr>))"
proof (intro conjI)
  show "\<exists>r'. vp_set ops r key val = Inr r'" by (rule vp_set_returns)
  show "\<exists>x. vp_get ops r key = Inr x" by (rule vp_get_returns)
  show "\<exists>x. vp_keys ops r pattern = Inr x" by (rule vp_keys_returns)
  show "\<exists>r'. store_requirement ops r key val = Inr r'"
    unfolding store_requirement_eq by (rule vp_set_returns)
  show "\<exists>x. get_requirement ops r key = Inr x"
    unfolding get_requirement_eq by (rule vp_get_returns)
  show "\<exists>r'. call_all ops r calls = Inr r' \<and> (use_memory r \<longrightarrow> use_memory r')"
    by (rule call_all_returns)
  show "use_memory r \<longrightarrow>
      (\<forall>r'. vp_set ops r key val = Inr r' \<longrightarrow> use_memory r') \<and>
      (\<forall>x r'. vp_get ops r key = Inr (x, r') \<longrightarrow> use_memory r') \<and>
      (\<forall>ks r'. vp_keys ops r pattern = Inr (ks, r') \<longrightarrow> use_memory r') \<and>
      (\<forall>r'. store_requirement ops r key val = Inr r' \<longrightarrow> use_memory r') \<and>
      (\<forall>x r'. get_requirement ops r key = Inr (x, r') \<longrightarrow> use_memory r')"
    unfolding store_requirement_eq get_requirement_eq
    using vp_set_sticky vp_get_sticky vp_keys_sticky by blast
  show "\<not> use_memory r \<and> client r = Some b \<and> backend_set ops b key val = Inl exc \<longrightarrow>
      (\<exists>r'. vp_set ops r key val = Inr r' \<and> use_memory r' \<and>
            map_of (store r') key = Some val \<and> vp_get ops r' key = Inr (Some val, r')) \<and>
      (\<exists>r'. store_requirement ops r key val = Inr r' \<and> use_memory r' \<and>
            get_requirement ops r' key = Inr (Some val, r'))"
    unfolding store_requirement_eq get_requirement_eq
    using set_then_get_after_failure [of r b ops key val exc] by blast
  show "\<not> use_memory r \<and> client r = Some b \<and> backend_get ops b key = Inl exc \<longrightarrow>
      vp_get ops r key = Inr (map_of (store r) key, r\<lparr>use_memory := True\<rparr>) \<and>
      get_requirement ops r key = Inr (map_of (store r) key, r\<lparr>use_memory := True\<rparr>)"
    unfolding get_requirement_eq by (simp add: vp_get_backend_raises)
  show "\<not> use_memory r \<and> client r = Some b \<and> backend_keys ops b pattern = Inl exc \<longrightarrow>
      vp_keys ops r pattern = Inr (memory_keys (store r) pattern, r\<lparr>use_memory := True\<rparr>)"
    by (simp add: vp_keys_backend_raises)
qed

theorem store_fallback_is_sticky_witness:
  "\<not> use_memory broken_backend \<and> client broken_backend = Some () \<and>
   backend_set failing_ops () ''requirement:1'' ''login must return 401'' = Inl connection_lost \<and>
   (\<exists>r'. vp_set failing_ops broken_backend ''requirement:1'' ''login must return 401'' = Inr r' \<and>
         use_memory r' \<and>
         map_of (store r') ''requirement:1'' = Some ''login must return 401'' \<and>
         vp_get failing_ops r' ''requirement:1'' = Inr (Some ''login must return 401'', r')) \<and>
   use_memory (broken_backend\<lparr>use_memory := True\<rparr>) \<and>
   (\<exists>ks. vp_keys failing_ops (broken_backend\<lparr>use_memory := True\<rparr>) ''*''
           = Inr (ks, broken_backend\<lparr>use_memory := True\<rparr>))"
proof -
  have pre: "\<not> use_memory broken_backend \<and> client broken_backend = Some () \<and>
             backend_set failing_ops () ''requirement:1'' ''login must return 401''
               = Inl connection_lost"
    by (simp add: broken_backend_def failing_ops_def)
  note fall = store_fallback_is_sticky
    [of failing_ops broken_backend "''requirement:1''" "''login must return 401''" "''*''"
        "[]" "()" connection_lost,
     THEN conjunct2, THEN conjunct2, THEN conjunct1, THEN mp, OF pre, THEN conjunct1]
  have mem: "use_memory (broken_backend\<lparr>use_memory := True\<rparr>)" by simp
  note stay = store_fallback_is_sticky
    [of failing_ops "broken_backend\<lparr>use_memory := True\<rparr>" "''requirement:1''"
        "''login must return 401''" "''*''" "[]" "()" connection_lost,
     THEN conjunct2, THEN conjunct1, THEN mp, OF mem]
  have keys: "vp_keys failing_ops (broken_backend\<lparr>use_memory := True\<rparr>) ''*''
              = Inr ([], broken_backend\<lparr>use_memory := True\<rparr>)"
    by (simp add: vp_keys_def memory_keys_def broken_backend_def)
  from pre fall mem stay keys show ?thesis by blast
qed

end
